theory Spec2Isabelle
  imports Main
begin

section \<open>The gulp file of the pouchdb TiddlyWiki plugin\<close>

text \<open>
  The development follows \<^verbatim>\<open>src/gulpfile.babel.js\<close>: the script configuration, the
  preprocessing that loads and checks \<^verbatim>\<open>plugin.info\<close>, the task \<^verbatim>\<open>bump version\<close> and
  the task \<^verbatim>\<open>bundle the plugin\<close>. Strings are byte strings, which agrees with JavaScript
  strings on ASCII text.
\<close>

subsection \<open>JavaScript values and exceptions\<close>

text \<open>
  A JavaScript number is a double. \<open>Num n\<close> stands for the double holding the integer
  \<open>n\<close>, which is exact while the magnitude of \<open>n\<close> stays below \<open>2 ^ 53\<close>; the build counters
  evaluated below are far inside that range.
\<close>

datatype jsnum = NaN | Num int

text \<open>
  A value read by \<^verbatim>\<open>JSON.parse\<close>. A number is kept as the text that JavaScript prints
  for it; an object is the list of its properties in enumeration order, with distinct
  keys.
\<close>

datatype json =
    JNull
  | JBool bool
  | JNum string
  | JStr string
  | JArr "json list"
  | JObj "(string \<times> json) list"

text \<open>One constructor for each kind of exception that the script can meet.\<close>

datatype error =
    TypeError string
  | Error string
  | SyntaxError
  | SystemError string

subsection \<open>Characters and decimal numerals\<close>

definition is_space :: "char \<Rightarrow> bool" where
  "is_space c = (c \<in> set [CHR 0x09, CHR 0x0A, CHR 0x0B, CHR 0x0C, CHR 0x0D, CHR '' ''])"

definition is_digit :: "char \<Rightarrow> bool" where
  "is_digit c = (c \<in> set ''0123456789'')"

definition is_ident_char :: "char \<Rightarrow> bool" where
  \<comment> \<open>the character class \<^verbatim>\<open>[0-9A-Za-z-]\<close>\<close>
  "is_ident_char c =
     (c \<in> set ''0123456789ABCDEFGHIJKLMNOPQRSTUVWXYZabcdefghijklmnopqrstuvwxyz-'')"

definition digit_table :: "(char \<times> nat) list" where
  "digit_table =
     [(CHR ''0'', 0), (CHR ''1'', 1), (CHR ''2'', 2), (CHR ''3'', 3), (CHR ''4'', 4),
      (CHR ''5'', 5), (CHR ''6'', 6), (CHR ''7'', 7), (CHR ''8'', 8), (CHR ''9'', 9),
      (CHR ''a'', 10), (CHR ''b'', 11), (CHR ''c'', 12), (CHR ''d'', 13), (CHR ''e'', 14),
      (CHR ''f'', 15),
      (CHR ''A'', 10), (CHR ''B'', 11), (CHR ''C'', 12), (CHR ''D'', 13), (CHR ''E'', 14),
      (CHR ''F'', 15)]"

definition digit_value :: "char \<Rightarrow> nat" where
  "digit_value c = (case map_of digit_table c of Some d \<Rightarrow> d | None \<Rightarrow> 0)"

definition is_radix_digit :: "nat \<Rightarrow> char \<Rightarrow> bool" where
  "is_radix_digit r c = (case map_of digit_table c of Some d \<Rightarrow> d < r | None \<Rightarrow> False)"

definition digits_value :: "nat \<Rightarrow> string \<Rightarrow> nat" where
  "digits_value r ds = foldl (\<lambda>a c. r * a + digit_value c) 0 ds"

definition digit_char :: "nat \<Rightarrow> char" where
  "digit_char d = ''0123456789'' ! d"

fun decimal :: "nat \<Rightarrow> string" where
  "decimal n = (if n < 10 then [digit_char n] else decimal (n div 10) @ [digit_char (n mod 10)])"

declare decimal.simps [simp del]

text \<open>\<^verbatim>\<open>String(x)\<close> for a number, as string concatenation and template literals apply it.\<close>

definition Number_toString :: "jsnum \<Rightarrow> string" where
  "Number_toString x =
     (case x of
        NaN \<Rightarrow> ''NaN''
      | Num n \<Rightarrow> if n < 0 then ''-'' @ decimal (nat (- n)) else decimal (nat n))"

text \<open>\<^verbatim>\<open>x + 1\<close> on numbers.\<close>

definition plus_one :: "jsnum \<Rightarrow> jsnum" where
  "plus_one x = (case x of NaN \<Rightarrow> NaN | Num n \<Rightarrow> Num (n + 1))"

text \<open>
  \<^verbatim>\<open>parseInt(s)\<close> with no radix: leading white space is skipped, a sign is read, a prefix
  \<^verbatim>\<open>0x\<close> or \<^verbatim>\<open>0X\<close> selects radix 16, and the longest prefix of digits of the radix is the
  value; with no digit at all the result is \<^verbatim>\<open>NaN\<close>.
\<close>

definition parseInt :: "string \<Rightarrow> jsnum" where
  "parseInt s =
     (let s1 = dropWhile is_space s;
          neg = (take 1 s1 = ''-'');
          s2 = (if take 1 s1 = ''-'' \<or> take 1 s1 = ''+'' then drop 1 s1 else s1);
          hex = (take 2 s2 = ''0x'' \<or> take 2 s2 = ''0X'');
          r = (if hex then 16 else 10);
          s3 = (if hex then drop 2 s2 else s2);
          ds = takeWhile (is_radix_digit r) s3
      in if ds = [] then NaN
         else Num ((if neg then - 1 else 1) * int (digits_value r ds)))"

subsection \<open>The \<^verbatim>\<open>semver\<close> package: \<^verbatim>\<open>new SemVer(version)\<close>\<close>

text \<open>
  The object built by the constructor of the \<^verbatim>\<open>semver\<close> package in strict mode. The
  prerelease identifiers are kept as written (the package turns the numeric ones into
  numbers; the script never reads them).
\<close>

record semver =
  major :: nat
  minor :: nat
  patch :: nat
  prerelease :: "string list"
  build :: "string list"

definition MAX_LENGTH :: nat where
  "MAX_LENGTH = 256"

definition MAX_SAFE_INTEGER :: nat where
  "MAX_SAFE_INTEGER = 9007199254740991"

text \<open>\<^verbatim>\<open>s.split(sep)\<close> for a separator of one character.\<close>

fun split_on :: "char \<Rightarrow> string \<Rightarrow> string list" where
  "split_on sep [] = [[]]"
| "split_on sep (c # cs) =
     (if c = sep then [] # split_on sep cs
      else (case split_on sep cs of
              [] \<Rightarrow> [[c]]
            | x # xs \<Rightarrow> (c # x) # xs))"

definition trim :: "string \<Rightarrow> string" where
  "trim s = rev (dropWhile is_space (rev (dropWhile is_space s)))"

definition numeric_identifier :: "string \<Rightarrow> bool" where
  \<comment> \<open>\<^verbatim>\<open>0|[1-9]\d*\<close>\<close>
  "numeric_identifier s =
     (if s = [] then False
      else if hd s = CHR ''0'' then s = ''0''
      else list_all is_digit s)"

definition prerelease_identifier :: "string \<Rightarrow> bool" where
  \<comment> \<open>\<^verbatim>\<open>0|[1-9]\d*|\d*[a-zA-Z-][a-zA-Z0-9-]*\<close>\<close>
  "prerelease_identifier s =
     (if list_all is_digit s then numeric_identifier s
      else list_all is_ident_char s)"

definition build_identifier :: "string \<Rightarrow> bool" where
  \<comment> \<open>\<^verbatim>\<open>[0-9A-Za-z-]+\<close>\<close>
  "build_identifier s = (if s = [] then False else list_all is_ident_char s)"

text \<open>
  The constructor trims the text and matches it against
  \<^verbatim>\<open>^v?(N)\.(N)\.(N)(?:-(P(?:\.P)*))?(?:\+(B(?:\.B)*))?$\<close>.
  Neither the main part nor the prerelease part can hold a \<^verbatim>\<open>+\<close>, and the main part
  cannot hold a \<^verbatim>\<open>-\<close>, so the first \<^verbatim>\<open>+\<close> starts the build part and the first \<^verbatim>\<open>-\<close>
  before it starts the prerelease part. Every failure is a \<^verbatim>\<open>TypeError\<close>.
\<close>

definition SemVer :: "string \<Rightarrow> error + semver" where
  "SemVer version =
     (if MAX_LENGTH < length version
      then Inl (TypeError ''version is longer than 256 characters'')
      else
        let t = trim version;
            s = (if take 1 t = ''v'' then drop 1 t else t);
            before_plus = takeWhile (\<lambda>c. c \<noteq> CHR ''+'') s;
            from_plus = dropWhile (\<lambda>c. c \<noteq> CHR ''+'') s;
            main = takeWhile (\<lambda>c. c \<noteq> CHR ''-'') before_plus;
            from_dash = dropWhile (\<lambda>c. c \<noteq> CHR ''-'') before_plus;
            nums = split_on (CHR ''.'') main;
            pre = (if from_dash = [] then [] else split_on (CHR ''.'') (drop 1 from_dash));
            bld = (if from_plus = [] then [] else split_on (CHR ''.'') (drop 1 from_plus))
        in if length nums = 3 \<and> list_all numeric_identifier nums
              \<and> list_all prerelease_identifier pre \<and> list_all build_identifier bld
           then
             (if MAX_SAFE_INTEGER < digits_value 10 (nums ! 0)
              then Inl (TypeError ''Invalid major version'')
              else if MAX_SAFE_INTEGER < digits_value 10 (nums ! 1)
              then Inl (TypeError ''Invalid minor version'')
              else if MAX_SAFE_INTEGER < digits_value 10 (nums ! 2)
              then Inl (TypeError ''Invalid patch version'')
              else Inr \<lparr>major = digits_value 10 (nums ! 0),
                        minor = digits_value 10 (nums ! 1),
                        patch = digits_value 10 (nums ! 2),
                        prerelease = pre,
                        build = bld\<rparr>)
           else Inl (TypeError (''Invalid Version: '' @ version)))"

subsection \<open>Task \<^verbatim>\<open>bump version\<close>: the new version string\<close>

text \<open>
  \<^verbatim>\<open>parseInt(v.build[0] || 0)\<close>: a missing first build identifier (or an empty one, which
  is falsy) gives the number \<open>0\<close>, which \<^verbatim>\<open>parseInt\<close> reads back from its text \<^verbatim>\<open>"0"\<close>.
\<close>

definition build_counter :: "semver \<Rightarrow> jsnum" where
  "build_counter v =
     (case build v of
        [] \<Rightarrow> parseInt ''0''
      | b # _ \<Rightarrow> if b = [] then parseInt ''0'' else parseInt b)"

text \<open>\<^verbatim>\<open>const build = (isIncrBuild ? '+' + (parseInt(v.build[0] || 0) + 1) : '')\<close>\<close>

definition bump_build :: "bool \<Rightarrow> semver \<Rightarrow> string" where
  "bump_build isIncrBuild v =
     (if isIncrBuild then ''+'' @ Number_toString (plus_one (build_counter v)) else [])"

text \<open>
  \<^verbatim>\<open>const mode = (argv.mode && argv.mode !== 'master' ? `-${argv.mode}` : '')\<close>, for an
  option \<^verbatim>\<open>--mode\<close> that is absent (\<open>None\<close>) or a string; the empty string is falsy.
\<close>

definition bump_mode :: "string option \<Rightarrow> string" where
  "bump_mode argv_mode =
     (case argv_mode of
        None \<Rightarrow> []
      | Some m \<Rightarrow> if m \<noteq> [] \<and> m \<noteq> ''master'' then ''-'' @ m else [])"

text \<open>\<^verbatim>\<open>const version = `${v.major}.${v.minor}.${v.patch}${mode}`\<close>\<close>

definition bump_base :: "semver \<Rightarrow> string \<Rightarrow> string" where
  "bump_base v mode =
     decimal (major v) @ ''.'' @ decimal (minor v) @ ''.'' @ decimal (patch v) @ mode"

text \<open>
  Lines 132 to 136 of the task as a function of the current version text, the mode and
  the flag \<^verbatim>\<open>isIncrBuild\<close>: the value assigned to \<^verbatim>\<open>pluginInfo.version\<close>, or the exception
  of the constructor.
\<close>

definition deriveVersion :: "string \<Rightarrow> string option \<Rightarrow> bool \<Rightarrow> error + string" where
  "deriveVersion current argv_mode isIncrBuild =
     (case SemVer current of
        Inl e \<Rightarrow> Inl e
      | Inr v \<Rightarrow> Inr (bump_base v (bump_mode argv_mode) @ bump_build isIncrBuild v))"

subsection \<open>Script configuration and preprocessing\<close>

text \<open>
  The constants at the head of the script. The flag \<open>isIncrBuild\<close> is a constant of the
  script as well; it is a field here so that both of its values can be examined.
\<close>

record config =
  authorName :: string
  pluginName :: string
  isIncrBuild :: bool

definition script_config :: config where
  "script_config = \<lparr>authorName = ''danielo515'', pluginName = ''pouchdb'', isIncrBuild = True\<rparr>"

type_synonym object = "(string \<times> json) list"

datatype event = ReadFile string | WriteFile string | MkDir string | TaskStart string

text \<open>
  The process environment: the working directory, the text of every file, the
  directories, the streams that a task has set up and that have not run yet (each with
  the file it reads and the version it was given), and the trace of file operations and
  task starts, oldest first.
\<close>

record world =
  cwd :: string
  files :: "string \<rightharpoonup> string"
  dirs :: "string list"
  streams :: "(string \<times> string) list"
  log :: "event list"

text \<open>
  What a run receives from outside: the option \<^verbatim>\<open>--mode\<close>, the text of
  \<^verbatim>\<open>new Date().toUTCString()\<close> at the bump, how the writes of the manifest, of the artifact
  and of \<^verbatim>\<open>package.json\<close> end, and whether \<^verbatim>\<open>fs.mkdirSync\<close> fails for a reason that the
  world does not show. The functions of the platform and of the imported packages that
  the script calls are taken as they are, with no assumption on what they compute:
  \<^verbatim>\<open>JSON.parse\<close> (\<open>None\<close> is its \<^verbatim>\<open>SyntaxError\<close>), \<^verbatim>\<open>JSON.stringify(x, null, 2)\<close>, the
  transformation of \<^verbatim>\<open>gulp-bump\<close> from a key, a version and the old text of a file to its
  new text or an error, and TiddlyWiki's \<^verbatim>\<open>$tw.loadPluginFolder\<close> for a path.
\<close>

datatype write_outcome = Completes | FailsAtOpen | FailsAfter nat

record env =
  argv_mode :: "string option"
  now :: string
  manifest_write :: write_outcome
  artifact_write :: write_outcome
  package_write :: write_outcome
  mkdir_fails :: bool
  JSON_parse :: "string \<Rightarrow> json option"
  JSON_stringify :: "json \<Rightarrow> string"
  bump :: "string \<Rightarrow> string \<Rightarrow> string \<Rightarrow> error + string"
  loadPluginFolder :: "string \<Rightarrow> error + json"

text \<open>\<^verbatim>\<open>path.resolve\<close> on POSIX paths, from the working directory (an absolute path).\<close>

definition resolve_step :: "string \<Rightarrow> string \<Rightarrow> string" where
  "resolve_step acc p =
     (if p = [] then acc else if hd p = CHR ''/'' then p else acc @ ''/'' @ p)"

definition normalize_step :: "string list \<Rightarrow> string \<Rightarrow> string list" where
  "normalize_step st c =
     (if c = [] \<or> c = ''.'' then st else if c = ''..'' then butlast st else st @ [c])"

definition path_resolve :: "string \<Rightarrow> string list \<Rightarrow> string" where
  "path_resolve dir ps =
     (let comps = foldl normalize_step [] (split_on (CHR ''/'') (foldl resolve_step dir ps))
      in if comps = [] then ''/'' else concat (map (\<lambda>c. ''/'' @ c) comps))"

definition pluginSrc :: string where
  "pluginSrc = ''./src/plugins/''"

definition pluginNamespace :: "config \<Rightarrow> string" where
  "pluginNamespace c = authorName c @ ''/'' @ pluginName c"

definition pluginTiddler :: "config \<Rightarrow> string" where
  "pluginTiddler c = ''$:/plugins/'' @ pluginNamespace c"

definition pluginInfoPath :: "config \<Rightarrow> string \<Rightarrow> string" where
  "pluginInfoPath c dir = path_resolve dir [pluginSrc, pluginNamespace c, ''plugin.info'']"

definition outPath_bundle :: string where
  "outPath_bundle = ''./bundle/''"

definition outPath_dist :: string where
  "outPath_dist = ''./dist/''"

definition mismatch :: error where
  "mismatch = Error ''Gulp settings do not match the plugin.info''"

text \<open>
  Lines 93 to 106: the text of the manifest is read and parsed, then the title of the
  parsed value is compared with \<open>pluginTiddler\<close>. Reading a property of \<^verbatim>\<open>null\<close> is a
  \<^verbatim>\<open>TypeError\<close>; a value that is not an object has no property \<^verbatim>\<open>title\<close>. The result is
  the object \<open>pluginInfo\<close>.
\<close>

definition preprocessing :: "config \<Rightarrow> env \<Rightarrow> world \<Rightarrow> (error + object) \<times> world" where
  "preprocessing c e w =
     (let p = pluginInfoPath c (cwd w);
          w1 = w\<lparr>log := log w @ [ReadFile p]\<rparr>
      in case files w p of
           None \<Rightarrow> (Inl (SystemError ''ENOENT''), w1)
         | Some text \<Rightarrow>
             (case JSON_parse e text of
                None \<Rightarrow> (Inl SyntaxError, w1)
              | Some JNull \<Rightarrow> (Inl (TypeError ''Cannot read property title of null''), w1)
              | Some (JObj props) \<Rightarrow>
                  if map_of props ''title'' = Some (JStr (pluginTiddler c))
                  then (Inr props, w1)
                  else (Inl mismatch, w1)
              | Some _ \<Rightarrow> (Inl mismatch, w1)))"

subsection \<open>File operations\<close>

text \<open>
  \<^verbatim>\<open>fs.writeFileSync(p, text)\<close> opens \<open>p\<close> for writing, which creates or truncates the
  file, and then writes the text; a write that fails after \<open>k\<close> bytes leaves the first \<open>k\<close>
  bytes of the text. It has no temporary file and no rename.
\<close>

definition writeFileSync :: "write_outcome \<Rightarrow> string \<Rightarrow> string \<Rightarrow> world \<Rightarrow> error option \<times> world" where
  "writeFileSync outcome p text w =
     (case outcome of
        Completes \<Rightarrow>
          (None, w\<lparr>files := (files w)(p \<mapsto> text), log := log w @ [WriteFile p]\<rparr>)
      | FailsAtOpen \<Rightarrow> (Some (SystemError ''open''), w)
      | FailsAfter k \<Rightarrow>
          (Some (SystemError ''write''),
           w\<lparr>files := (files w)(p \<mapsto> take k text), log := log w @ [WriteFile p]\<rparr>))"

text \<open>
  \<^verbatim>\<open>exists(p)\<close> of the package \<^verbatim>\<open>is-there\<close> asks for the status of \<open>p\<close>: a directory is
  there, and a regular file is there unless \<open>p\<close> ends with a slash.
\<close>

definition exists :: "world \<Rightarrow> string \<Rightarrow> bool" where
  "exists w p =
     (path_resolve (cwd w) [p] \<in> set (dirs w)
      \<or> (files w (path_resolve (cwd w) [p]) \<noteq> None \<and> p \<noteq> [] \<and> last p \<noteq> CHR ''/''))"

text \<open>
  \<^verbatim>\<open>fs.mkdirSync(p)\<close> raises \<^verbatim>\<open>EEXIST\<close> when a directory or a file has the name already, and
  may fail for other reasons.
\<close>

definition mkdirSync :: "env \<Rightarrow> string \<Rightarrow> world \<Rightarrow> error option \<times> world" where
  "mkdirSync e p w =
     (if path_resolve (cwd w) [p] \<in> set (dirs w) \<or> files w (path_resolve (cwd w) [p]) \<noteq> None
      then (Some (SystemError ''EEXIST''), w)
      else if mkdir_fails e then (Some (SystemError ''mkdir''), w)
      else (None, w\<lparr>dirs := dirs w @ [path_resolve (cwd w) [p]],
                    log := log w @ [MkDir (path_resolve (cwd w) [p])]\<rparr>))"

text \<open>
  Assignment to a property of an object: an existing key keeps its place, a new key goes
  to the end (the script assigns the keys \<^verbatim>\<open>version\<close> and \<^verbatim>\<open>released\<close> only).
\<close>

fun assign :: "string \<Rightarrow> json \<Rightarrow> object \<Rightarrow> object" where
  "assign k x [] = [(k, x)]"
| "assign k x ((k', y) # ps) = (if k' = k then (k, x) # ps else (k', y) # assign k x ps)"

subsection \<open>The stream over \<^verbatim>\<open>package.json\<close>\<close>

text \<open>
  \<^verbatim>\<open>gulp.src(f).pipe(bump({ key: 'version', version: version })).pipe(gulp.dest('./'))\<close>
  only sets the stream up; the task calls \<^verbatim>\<open>cb()\<close> at once, and the stream does its work
  when the tasks that run in the same turn have returned. Then a missing file puts
  nothing into the stream; otherwise the text of the file goes through \<^verbatim>\<open>gulp-bump\<close> and
  the result is written back to the same path. An error of the stream is an uncaught
  exception, after which no further stream runs.
\<close>

definition run_stream :: "env \<Rightarrow> string \<times> string \<Rightarrow> world \<Rightarrow> error option \<times> world" where
  "run_stream e s w =
     (case files w (path_resolve (cwd w) [fst s]) of
        None \<Rightarrow> (None, w)
      | Some text \<Rightarrow>
          (case bump e ''version'' (snd s) text of
             Inl err \<Rightarrow> (Some err, w\<lparr>log := log w @ [ReadFile (path_resolve (cwd w) [fst s])]\<rparr>)
           | Inr text' \<Rightarrow>
               writeFileSync (package_write e) (path_resolve (cwd w) [fst s]) text'
                 (w\<lparr>log := log w @ [ReadFile (path_resolve (cwd w) [fst s])]\<rparr>)))"

fun run_streams :: "env \<Rightarrow> (string \<times> string) list \<Rightarrow> world \<Rightarrow> error option \<times> world" where
  "run_streams e [] w = (None, w)"
| "run_streams e (s # ss) w =
     (case fst (run_stream e s w) of
        Some err \<Rightarrow> run_stream e s w
      | None \<Rightarrow> run_streams e ss (snd (run_stream e s w)))"

definition run_pending :: "env \<Rightarrow> world \<Rightarrow> error option \<times> world" where
  "run_pending e w = run_streams e (streams w) (w\<lparr>streams := []\<rparr>)"

subsection \<open>Task \<^verbatim>\<open>bump version\<close>\<close>

text \<open>\<^verbatim>\<open>new SemVer(pluginInfo.version)\<close>: anything but a string is a \<^verbatim>\<open>TypeError\<close>.\<close>

definition new_SemVer :: "json option \<Rightarrow> error + semver" where
  "new_SemVer x =
     (case x of
        Some (JStr s) \<Rightarrow> SemVer s
      | _ \<Rightarrow> Inl (TypeError ''Invalid Version''))"

text \<open>
  The state of the script is the object \<open>pluginInfo\<close> with the world. A task returns the
  exception that ended it, if any, and the state it leaves. The object is changed before
  the file is written; after the write the stream over \<^verbatim>\<open>package.json\<close> is set up with
  the version that has no build suffix, and the task is done.
\<close>

definition bump_version :: "config \<Rightarrow> env \<Rightarrow> object \<times> world \<Rightarrow> error option \<times> object \<times> world" where
  "bump_version c e st =
     (let pluginInfo = fst st;
          w = (snd st)\<lparr>log := log (snd st) @ [TaskStart ''bump version'']\<rparr>
      in case new_SemVer (map_of pluginInfo ''version'') of
           Inl err \<Rightarrow> (Some err, pluginInfo, w)
         | Inr v \<Rightarrow>
             (let build = bump_build (isIncrBuild c) v;
                  mode = bump_mode (argv_mode e);
                  version = bump_base v mode;
                  pluginInfo1 = assign ''version'' (JStr (version @ build)) pluginInfo;
                  pluginInfo2 = assign ''released'' (JStr (now e)) pluginInfo1;
                  r = writeFileSync (manifest_write e) (pluginInfoPath c (cwd w))
                        (JSON_stringify e (JObj pluginInfo2)) w
              in case fst r of
                   Some err \<Rightarrow> (Some err, pluginInfo2, snd r)
                 | None \<Rightarrow>
                     (None, pluginInfo2,
                      (snd r)\<lparr>streams := streams (snd r) @ [(''./package.json'', version)]\<rparr>)))"

subsection \<open>Task \<^verbatim>\<open>bundle the plugin\<close>\<close>

text \<open>\<^verbatim>\<open>String(x)\<close> for a property that may be missing, as \<^verbatim>\<open>+\<close> on strings applies it.\<close>

fun join_comma :: "string list \<Rightarrow> string" where
  "join_comma [] = []"
| "join_comma [s] = s"
| "join_comma (s # t # ts) = s @ '','' @ join_comma (t # ts)"

fun ToString :: "json \<Rightarrow> string" where
  "ToString JNull = ''null''"
| "ToString (JBool b) = (if b then ''true'' else ''false'')"
| "ToString (JNum t) = t"
| "ToString (JStr s) = s"
| "ToString (JArr xs) = join_comma (map (\<lambda>x. if x = JNull then [] else ToString x) xs)"
| "ToString (JObj ps) = ''[object Object]''"

definition property_text :: "json option \<Rightarrow> string" where
  "property_text x = (case x of None \<Rightarrow> ''undefined'' | Some y \<Rightarrow> ToString y)"

text \<open>\<^verbatim>\<open>const outName = pluginName + '_' + pluginInfo.version + '.json'\<close>\<close>

definition outName :: "config \<Rightarrow> object \<Rightarrow> string" where
  "outName c pluginInfo =
     pluginName c @ ''_'' @ property_text (map_of pluginInfo ''version'') @ ''.json''"

text \<open>
  The task starts TiddlyWiki, loads the plugin folder below the \<^verbatim>\<open>dist\<close> directory,
  makes the bundle directory when \<^verbatim>\<open>exists\<close> does not find it and writes the text of
  \<^verbatim>\<open>[ plugin ]\<close>. The start of TiddlyWiki and the beep have no effect that the script
  itself observes.
\<close>

definition bundle_the_plugin :: "config \<Rightarrow> env \<Rightarrow> object \<times> world \<Rightarrow> error option \<times> object \<times> world" where
  "bundle_the_plugin c e st =
     (let pluginInfo = fst st;
          w = (snd st)\<lparr>log := log (snd st) @ [TaskStart ''bundle the plugin'']\<rparr>
      in case loadPluginFolder e (path_resolve (cwd w) [outPath_dist, pluginNamespace c]) of
           Inl err \<Rightarrow> (Some err, pluginInfo, w)
         | Inr plugin \<Rightarrow>
             (let m = (if exists w outPath_bundle then (None, w) else mkdirSync e outPath_bundle w)
              in case fst m of
                   Some err \<Rightarrow> (Some err, pluginInfo, snd m)
                 | None \<Rightarrow>
                     (let r = writeFileSync (artifact_write e)
                                (path_resolve (cwd w) [outPath_bundle, outName c pluginInfo])
                                (JSON_stringify e (JArr [plugin])) (snd m)
                      in (fst r, pluginInfo, snd r))))"

subsection \<open>Running tasks\<close>

text \<open>
  A run of the script does the preprocessing and then the requested tasks in order, up to
  the first exception; the streams that the tasks have set up run after that. The task
  \<^verbatim>\<open>default\<close> runs \<^verbatim>\<open>bump version\<close>. An exception of the preprocessing ends the run before
  any task; the run reports the exception of a task, or else the one of a stream.
\<close>

datatype task = Bump_version | Bundle_the_plugin | Default

definition run_task :: "config \<Rightarrow> env \<Rightarrow> task \<Rightarrow> object \<times> world \<Rightarrow> error option \<times> object \<times> world" where
  "run_task c e t st =
     (case t of
        Bump_version \<Rightarrow> bump_version c e st
      | Bundle_the_plugin \<Rightarrow> bundle_the_plugin c e st
      | Default \<Rightarrow>
          bump_version c e (fst st, (snd st)\<lparr>log := log (snd st) @ [TaskStart ''default'']\<rparr>))"

fun run_tasks :: "config \<Rightarrow> env \<Rightarrow> task list \<Rightarrow> object \<times> world \<Rightarrow> error option \<times> object \<times> world" where
  "run_tasks c e [] st = (None, st)"
| "run_tasks c e (t # ts) st =
     (case fst (run_task c e t st) of
        Some err \<Rightarrow> run_task c e t st
      | None \<Rightarrow> run_tasks c e ts (snd (run_task c e t st)))"

definition gulp :: "config \<Rightarrow> env \<Rightarrow> task list \<Rightarrow> world \<Rightarrow> error option \<times> world" where
  "gulp c e ts w =
     (case fst (preprocessing c e w) of
        Inl err \<Rightarrow> (Some err, snd (preprocessing c e w))
      | Inr pluginInfo \<Rightarrow>
          (case fst (run_tasks c e ts (pluginInfo, snd (preprocessing c e w))) of
             Some err \<Rightarrow>
               (Some err,
                snd (run_pending e (snd (snd (run_tasks c e ts (pluginInfo, snd (preprocessing c e w)))))))
           | None \<Rightarrow>
               run_pending e (snd (snd (run_tasks c e ts (pluginInfo, snd (preprocessing c e w)))))))"

subsection \<open>Reading the files, and an example run\<close>

text \<open>
  The property \<^verbatim>\<open>title\<close> of a parsed manifest, the version that the text of a file holds
  for \<^verbatim>\<open>JSON.parse\<close>, the length of an array, and whether a text occurs in another.
\<close>

definition title_of :: "json \<Rightarrow> json option" where
  "title_of x = (case x of JObj props \<Rightarrow> map_of props ''title'' | _ \<Rightarrow> None)"

definition version_in :: "env \<Rightarrow> world \<Rightarrow> string \<Rightarrow> json option" where
  "version_in e w p =
     (case files w p of
        None \<Rightarrow> None
      | Some text \<Rightarrow>
          (case JSON_parse e text of
             Some (JObj props) \<Rightarrow> map_of props ''version''
           | _ \<Rightarrow> None))"

definition root_array_length :: "json \<Rightarrow> nat option" where
  "root_array_length x = (case x of JArr xs \<Rightarrow> Some (length xs) | _ \<Rightarrow> None)"

fun occurs :: "string \<Rightarrow> string \<Rightarrow> bool" where
  "occurs m [] = (m = [])"
| "occurs m (c # cs) = (if take (length m) (c # cs) = m then True else occurs m cs)"

text \<open>
  A project directory \<^verbatim>\<open>/repo\<close>. Its manifest is at version \<^verbatim>\<open>1.2.5+3\<close> and has a field
  written as \<^verbatim>\<open>1.50\<close>, which \<^verbatim>\<open>JSON.parse\<close> reads as the number \<^verbatim>\<open>1.5\<close>.
\<close>

definition example_manifest_text :: string where
  \<open>example_manifest_text =
     ''{"title": "$:/plugins/danielo515/pouchdb", "description": "PouchDB sync adaptor", "version": "1.2.5+3", "priority": 1.50}''\<close>

definition example_manifest :: object where
  "example_manifest =
     [(''title'', JStr ''$:/plugins/danielo515/pouchdb''),
      (''description'', JStr ''PouchDB sync adaptor''),
      (''version'', JStr ''1.2.5+3''),
      (''priority'', JNum ''1.5'')]"

definition example_package_text :: string where
  \<open>example_package_text = ''{"name": "tw5-pouchdb", "version": "1.2.5"}''\<close>

text \<open>
  The manifest after a bump with \<^verbatim>\<open>--mode develop\<close> at the time below, with the text that
  \<^verbatim>\<open>JSON.stringify(pluginInfo, null, 2)\<close> prints for it, and \<^verbatim>\<open>package.json\<close> after
  \<^verbatim>\<open>gulp-bump\<close> has put in the version \<^verbatim>\<open>1.2.5-develop\<close>.
\<close>

definition example_bumped :: object where
  "example_bumped =
     [(''title'', JStr ''$:/plugins/danielo515/pouchdb''),
      (''description'', JStr ''PouchDB sync adaptor''),
      (''version'', JStr ''1.2.5-develop+4''),
      (''priority'', JNum ''1.5''),
      (''released'', JStr ''Mon, 02 Nov 2026 09:00:00 GMT'')]"

definition example_bumped_text :: string where
  \<open>example_bumped_text =
     ''{\<newline>  "title": "$:/plugins/danielo515/pouchdb",\<newline>  "description": "PouchDB sync adaptor",\<newline>  "version": "1.2.5-develop+4",\<newline>  "priority": 1.5,\<newline>  "released": "Mon, 02 Nov 2026 09:00:00 GMT"\<newline>}''\<close>

definition example_bumped_package_text :: string where
  \<open>example_bumped_package_text = ''{"name": "tw5-pouchdb", "version": "1.2.5-develop"}''\<close>

text \<open>The record that the plugin loader returns in the example, and the text of \<^verbatim>\<open>[ plugin ]\<close>.\<close>

definition example_plugin :: json where
  "example_plugin = JObj [(''title'', JStr ''$:/plugins/danielo515/pouchdb'')]"

definition example_artifact_text :: string where
  \<open>example_artifact_text =
     ''[\<newline>  {\<newline>    "title": "$:/plugins/danielo515/pouchdb"\<newline>  }\<newline>]''\<close>

text \<open>The manifest of another plugin.\<close>

definition foreign_manifest_text :: string where
  \<open>foreign_manifest_text =
     ''{"title": "$:/plugins/felixhayashi/tiddlymap", "version": "0.9.0"}''\<close>

definition foreign_manifest :: object where
  "foreign_manifest =
     [(''title'', JStr ''$:/plugins/felixhayashi/tiddlymap''), (''version'', JStr ''0.9.0'')]"

text \<open>
  What the functions of the platform and of \<^verbatim>\<open>gulp-bump\<close> return on the texts and values of
  the example; the tables say nothing beyond these.
\<close>

definition example_parse :: "string \<Rightarrow> json option" where
  "example_parse text =
     map_of
       [(example_manifest_text, JObj example_manifest),
        (example_bumped_text, JObj example_bumped),
        (example_bumped_package_text,
           JObj [(''name'', JStr ''tw5-pouchdb''), (''version'', JStr ''1.2.5-develop'')]),
        (foreign_manifest_text, JObj foreign_manifest)]
       text"

definition example_stringify :: "json \<Rightarrow> string" where
  "example_stringify x =
     (case map_of [(JObj example_bumped, example_bumped_text),
                   (JArr [example_plugin], example_artifact_text)] x of
        Some text \<Rightarrow> text
      | None \<Rightarrow> [])"

definition example_bump :: "string \<Rightarrow> string \<Rightarrow> string \<Rightarrow> error + string" where
  "example_bump key version text =
     (if key = ''version'' \<and> version = ''1.2.5-develop'' \<and> text = example_package_text
      then Inr example_bumped_package_text
      else Inl (Error ''gulp-bump''))"

text \<open>A run with \<^verbatim>\<open>--mode develop\<close> in which every write completes.\<close>

definition example_env :: env where
  "example_env =
     \<lparr>argv_mode = Some ''develop'',
      now = ''Mon, 02 Nov 2026 09:00:00 GMT'',
      manifest_write = Completes,
      artifact_write = Completes,
      package_write = Completes,
      mkdir_fails = False,
      JSON_parse = example_parse,
      JSON_stringify = example_stringify,
      bump = example_bump,
      loadPluginFolder = (\<lambda>p. Inr example_plugin)\<rparr>"

definition example_world :: world where
  "example_world =
     \<lparr>cwd = ''/repo'',
      files = [''/repo/src/plugins/danielo515/pouchdb/plugin.info'' \<mapsto> example_manifest_text,
               ''/repo/package.json'' \<mapsto> example_package_text],
      dirs = [''/repo''],
      streams = [],
      log = []\<rparr>"

text \<open>The same directory with the manifest of the other plugin.\<close>

definition foreign_world :: world where
  "foreign_world =
     \<lparr>cwd = ''/repo'',
      files = [''/repo/src/plugins/danielo515/pouchdb/plugin.info'' \<mapsto> foreign_manifest_text],
      dirs = [''/repo''],
      streams = [],
      log = []\<rparr>"

text \<open>
  The example directory after the preprocessing and after the bump task, and a run whose
  manifest write fails after ten bytes.
\<close>

definition example_loaded :: world where
  "example_loaded =
     example_world\<lparr>log := [ReadFile ''/repo/src/plugins/danielo515/pouchdb/plugin.info'']\<rparr>"

definition failing_env :: env where
  "failing_env = example_env\<lparr>manifest_write := FailsAfter 10\<rparr>"

definition example_bumped_world :: world where
  "example_bumped_world =
     \<lparr>cwd = ''/repo'',
      files = [''/repo/src/plugins/danielo515/pouchdb/plugin.info'' \<mapsto> example_manifest_text,
               ''/repo/package.json'' \<mapsto> example_package_text,
               ''/repo/src/plugins/danielo515/pouchdb/plugin.info'' \<mapsto> example_bumped_text],
      dirs = [''/repo''],
      streams = [(''./package.json'', ''1.2.5-develop'')],
      log = [ReadFile ''/repo/src/plugins/danielo515/pouchdb/plugin.info'',
             TaskStart ''bump version'',
             WriteFile ''/repo/src/plugins/danielo515/pouchdb/plugin.info'']\<rparr>"

definition example_finished_world :: world where
  "example_finished_world =
     \<lparr>cwd = ''/repo'',
      files = [''/repo/src/plugins/danielo515/pouchdb/plugin.info'' \<mapsto> example_manifest_text,
               ''/repo/package.json'' \<mapsto> example_package_text,
               ''/repo/src/plugins/danielo515/pouchdb/plugin.info'' \<mapsto> example_bumped_text,
               ''/repo/package.json'' \<mapsto> example_bumped_package_text],
      dirs = [''/repo''],
      streams = [],
      log = [ReadFile ''/repo/src/plugins/danielo515/pouchdb/plugin.info'',
             TaskStart ''bump version'',
             WriteFile ''/repo/src/plugins/danielo515/pouchdb/plugin.info'',
             ReadFile ''/repo/package.json'',
             WriteFile ''/repo/package.json'']\<rparr>"

section \<open>Properties\<close>

subsection \<open>Evaluation and decimal numerals\<close>

lemmas version_defs =
  deriveVersion_def SemVer_def MAX_LENGTH_def trim_def is_space_def numeric_identifier_def
  prerelease_identifier_def build_identifier_def is_digit_def is_ident_char_def
  digits_value_def digit_value_def digit_table_def MAX_SAFE_INTEGER_def bump_base_def
  bump_mode_def bump_build_def build_counter_def parseInt_def is_radix_digit_def
  Number_toString_def plus_one_def digit_char_def Let_def decimal.simps

lemma digit_char_is_digit: "n < 10 \<Longrightarrow> is_digit (digit_char n)"
  unfolding is_digit_def digit_char_def by (rule nth_mem) simp

lemma decimal_digits: "list_all is_digit (decimal n)"
proof (induction n rule: decimal.induct)
  case (1 n)
  show ?case
  proof (cases "n < 10")
    case True
    then show ?thesis by (subst decimal.simps) (simp add: digit_char_is_digit)
  next
    case False
    then have "list_all is_digit (decimal (n div 10))" using 1 by simp
    moreover have "is_digit (digit_char (n mod 10))" by (simp add: digit_char_is_digit)
    ultimately show ?thesis using False by (subst decimal.simps) simp
  qed
qed

lemma decimal_no_sign: "CHR ''+'' \<notin> set (decimal n) \<and> CHR ''-'' \<notin> set (decimal n)"
proof -
  have "\<not> is_digit (CHR ''+'')" "\<not> is_digit (CHR ''-'')" by (simp_all add: is_digit_def)
  then show ?thesis using decimal_digits [of n] unfolding list_all_iff by blast
qed

lemma takeWhile_upto:
  "\<forall>x \<in> set xs. x \<noteq> a \<Longrightarrow> takeWhile (\<lambda>c. c \<noteq> a) (xs @ a # ys) = xs"
  by (induction xs) auto

lemma takeWhile_all:
  "\<forall>x \<in> set xs. x \<noteq> a \<Longrightarrow> takeWhile (\<lambda>c. c \<noteq> a) xs = xs"
  by (induction xs) auto

subsection \<open>The new version string\<close>

text \<open>
  Claim C1. The three test vectors of the version derivation:
  \<^verbatim>\<open>1.2.5+3\<close> with mode \<^verbatim>\<open>develop\<close> and the build increment gives \<^verbatim>\<open>1.2.5-develop+4\<close>;
  \<^verbatim>\<open>1.2.5\<close> with mode \<^verbatim>\<open>master\<close> and no build increment gives \<^verbatim>\<open>1.2.5\<close>;
  \<^verbatim>\<open>2.0.0+9\<close> with no mode and the build increment gives \<^verbatim>\<open>2.0.0+10\<close>.
\<close>

theorem deriveVersion_vectors:
  "deriveVersion ''1.2.5+3'' (Some ''develop'') True = Inr ''1.2.5-develop+4''
   \<and> deriveVersion ''1.2.5'' (Some ''master'') False = Inr ''1.2.5''
   \<and> deriveVersion ''2.0.0+9'' None True = Inr ''2.0.0+10''"
  by (simp add: version_defs)

text \<open>
  A version with no build part counts from zero: with the build increment its new build
  suffix is \<^verbatim>\<open>+1\<close>.
\<close>

lemma build_absent_plus_one: "build v = [] \<Longrightarrow> bump_build True v = ''+1''"
  by (simp add: version_defs)

text \<open>
  A first build identifier from which \<^verbatim>\<open>parseInt\<close> reads no number gives the build suffix
  \<^verbatim>\<open>+NaN\<close>: the fallback \<^verbatim>\<open>|| 0\<close> applies to a missing identifier only.
\<close>

lemma build_NaN:
  "build v = b # bs \<Longrightarrow> b \<noteq> [] \<Longrightarrow> parseInt b = NaN \<Longrightarrow> bump_build True v = ''+NaN''"
  by (simp add: bump_build_def build_counter_def plus_one_def Number_toString_def)

text \<open>
  Claim C2. A build counter that is absent or not numeric is meant to count as zero, so
  that the new build suffix is \<^verbatim>\<open>+1\<close>. For the version \<^verbatim>\<open>1.2.5+abc\<close>, whose first build
  identifier is not numeric, the task computes \<^verbatim>\<open>parseInt("abc") + 1\<close>, which is \<^verbatim>\<open>NaN\<close>, and
  the new version is \<^verbatim>\<open>1.2.5+NaN\<close> instead of \<^verbatim>\<open>1.2.5+1\<close>.
\<close>

theorem deriveVersion_non_numeric_build:
  "deriveVersion ''1.2.5+abc'' None True = Inr ''1.2.5+NaN''"
  by (simp add: version_defs)

text \<open>
  Claim C8. For every current version and every value of the build-increment flag, the
  mode \<^verbatim>\<open>master\<close> gives exactly the result of an absent mode, and so does the empty mode.
\<close>

theorem deriveVersion_master_is_absent:
  "deriveVersion current (Some ''master'') isIncr = deriveVersion current None isIncr
   \<and> deriveVersion current (Some []) isIncr = deriveVersion current None isIncr"
  by (simp add: deriveVersion_def bump_mode_def split: sum.split)

lemma takeWhile_base:
  "takeWhile (\<lambda>c. c \<noteq> CHR ''+'') (decimal a @ ''.'' @ decimal b @ ''.'' @ decimal c @ bump_build i v)
   = decimal a @ ''.'' @ decimal b @ ''.'' @ decimal c"
proof -
  let ?base = "decimal a @ ''.'' @ decimal b @ ''.'' @ decimal c"
  have base: "\<forall>x \<in> set ?base. x \<noteq> CHR ''+''"
    using decimal_no_sign [of a] decimal_no_sign [of b] decimal_no_sign [of c] by auto
  show ?thesis
  proof (cases i)
    case False
    then have "bump_build i v = []" by (simp add: bump_build_def)
    then show ?thesis using takeWhile_all [OF base] by simp
  next
    case True
    then obtain r where r: "bump_build i v = CHR ''+'' # r" by (simp add: bump_build_def)
    show ?thesis using takeWhile_upto [OF base, of r] r by simp
  qed
qed

lemma base_no_dash:
  "CHR ''-'' \<notin> set (decimal a @ ''.'' @ decimal b @ ''.'' @ decimal c)"
  using decimal_no_sign [of a] decimal_no_sign [of b] decimal_no_sign [of c] by auto

text \<open>
  Claim C10. For every current version that carries a prerelease label, the derivation
  discards the label: the result is the one for the same version without the label, it
  is built from major, minor and patch, the label of the mode and the build suffix only,
  and with the mode absent or \<^verbatim>\<open>master\<close> the text before the build suffix is just
  \<^verbatim>\<open>major.minor.patch\<close>, with no label.
\<close>

theorem deriveVersion_discards_label:
  assumes "SemVer current = Inr v" and "prerelease v \<noteq> []"
    and "SemVer plain = Inr (v\<lparr>prerelease := []\<rparr>)"
  shows "deriveVersion current m b = deriveVersion plain m b
    \<and> deriveVersion current m b =
        Inr (decimal (major v) @ ''.'' @ decimal (minor v) @ ''.'' @ decimal (patch v)
             @ bump_mode m @ bump_build b v)
    \<and> (if m = None \<or> m = Some ''master''
        then takeWhile (\<lambda>c. c \<noteq> CHR ''+'') (projr (deriveVersion current m b))
               = decimal (major v) @ ''.'' @ decimal (minor v) @ ''.'' @ decimal (patch v)
             \<and> CHR ''-'' \<notin> set (takeWhile (\<lambda>c. c \<noteq> CHR ''+'') (projr (deriveVersion current m b)))
        else True)"
proof -
  have same: "bump_build b (v\<lparr>prerelease := []\<rparr>) = bump_build b v"
    by (simp add: bump_build_def build_counter_def)
  have r: "deriveVersion current m b =
        Inr (decimal (major v) @ ''.'' @ decimal (minor v) @ ''.'' @ decimal (patch v)
             @ bump_mode m @ bump_build b v)"
    using assms(1) by (simp add: deriveVersion_def bump_base_def)
  have p: "deriveVersion plain m b = deriveVersion current m b"
    using assms(1,3) same by (simp add: deriveVersion_def bump_base_def)
  have nolabel: "bump_mode m = []" if "m = None \<or> m = Some ''master''"
    using that by (auto simp: bump_mode_def)
  show ?thesis
    using r p nolabel takeWhile_base [of "major v" "minor v" "patch v" b v]
      base_no_dash [of "major v" "minor v" "patch v"]
    by auto
qed

theorem deriveVersion_discards_label_witness:
  "SemVer ''1.2.5-develop+3'' =
     Inr \<lparr>major = 1, minor = 2, patch = 5, prerelease = [''develop''], build = [''3'']\<rparr>
   \<and> SemVer ''1.2.5+3'' =
     Inr \<lparr>major = 1, minor = 2, patch = 5, prerelease = [], build = [''3'']\<rparr>
   \<and> deriveVersion ''1.2.5-develop+3'' None True = deriveVersion ''1.2.5+3'' None True
   \<and> deriveVersion ''1.2.5-develop+3'' None True = Inr ''1.2.5+4''"
proof -
  let ?v = "\<lparr>major = 1, minor = 2, patch = 5, prerelease = [''develop''], build = [''3'']\<rparr>"
  have a: "SemVer ''1.2.5-develop+3'' = Inr ?v"
    by (simp add: version_defs)
  have b: "SemVer ''1.2.5+3'' = Inr (?v\<lparr>prerelease := []\<rparr>)"
    by (simp add: version_defs)
  have c: "prerelease ?v \<noteq> []"
    by simp
  note t = deriveVersion_discards_label [OF a c b, of None True]
  have d: "deriveVersion ''1.2.5-develop+3'' None True = deriveVersion ''1.2.5+3'' None True"
    using t by (rule conjunct1)
  have "deriveVersion ''1.2.5-develop+3'' None True =
          Inr (decimal (major ?v) @ ''.'' @ decimal (minor ?v) @ ''.'' @ decimal (patch ?v)
               @ bump_mode None @ bump_build True ?v)"
    using t by blast
  also have "\<dots> = Inr ''1.2.5+4''"
    by (simp add: version_defs)
  finally have e: "deriveVersion ''1.2.5-develop+3'' None True = Inr ''1.2.5+4''" .
  from b have b': "SemVer ''1.2.5+3'' =
     Inr \<lparr>major = 1, minor = 2, patch = 5, prerelease = [], build = [''3'']\<rparr>"
    by simp
  show ?thesis
    using a b' d e by blast
qed

subsection \<open>Paths\<close>

lemmas path_defs = path_resolve_def resolve_step_def normalize_step_def pluginInfoPath_def
  pluginSrc_def pluginNamespace_def pluginTiddler_def outPath_bundle_def outPath_dist_def Let_def

lemma example_paths:
  "pluginInfoPath script_config ''/repo'' = ''/repo/src/plugins/danielo515/pouchdb/plugin.info''"
  "path_resolve ''/repo'' [''./package.json''] = ''/repo/package.json''"
  "path_resolve ''/repo'' [outPath_bundle] = ''/repo/bundle''"
  "path_resolve ''/repo'' [outPath_dist, pluginNamespace script_config] = ''/repo/dist/danielo515/pouchdb''"
  by (simp_all add: path_defs script_config_def)

lemma split_on_not_Nil: "split_on sep xs \<noteq> []"
  by (induction xs) (auto split: list.splits)

lemma split_on_append: "split_on sep (xs @ sep # ys) = split_on sep xs @ split_on sep ys"
proof (induction xs)
  case Nil
  show ?case by simp
next
  case (Cons c xs)
  obtain x xs' where x: "split_on sep xs = x # xs'"
    using split_on_not_Nil [of sep xs] by (cases "split_on sep xs") auto
  show ?case using Cons x by simp
qed

lemma split_on_plain: "sep \<notin> set xs \<Longrightarrow> split_on sep xs = [xs]"
  by (induction xs) auto

lemma pluginInfoPath_suffix:
  "\<exists>d. pluginInfoPath c dir = d @ ''/plugin.info''"
proof -
  let ?x = "foldl resolve_step dir [pluginSrc, pluginNamespace c]"
  have "foldl resolve_step dir [pluginSrc, pluginNamespace c, ''plugin.info''] = ?x @ CHR ''/'' # ''plugin.info''"
    by (simp add: resolve_step_def)
  then have "split_on (CHR ''/'') (foldl resolve_step dir [pluginSrc, pluginNamespace c, ''plugin.info''])
      = split_on (CHR ''/'') ?x @ [''plugin.info'']"
    by (simp only: split_on_append) (simp add: split_on_plain)
  then have "foldl normalize_step [] (split_on (CHR ''/'') (foldl resolve_step dir [pluginSrc, pluginNamespace c, ''plugin.info'']))
      = foldl normalize_step [] (split_on (CHR ''/'') ?x) @ [''plugin.info'']"
    by (simp add: normalize_step_def)
  then show ?thesis
    unfolding pluginInfoPath_def path_resolve_def Let_def by simp
qed

lemma package_path_suffix:
  "\<exists>d. path_resolve dir [''./package.json''] = d @ ''/package.json''"
proof -
  have "foldl resolve_step dir [''./package.json''] = (dir @ CHR ''/'' # ''.'') @ CHR ''/'' # ''package.json''"
    by (simp add: resolve_step_def)
  then have "split_on (CHR ''/'') (foldl resolve_step dir [''./package.json''])
      = split_on (CHR ''/'') (dir @ CHR ''/'' # ''.'') @ [''package.json'']"
    by (simp only: split_on_append) (simp add: split_on_plain)
  then have "foldl normalize_step [] (split_on (CHR ''/'') (foldl resolve_step dir [''./package.json'']))
      = foldl normalize_step [] (split_on (CHR ''/'') (dir @ CHR ''/'' # ''.'')) @ [''package.json'']"
    by (simp add: normalize_step_def)
  then show ?thesis
    unfolding path_resolve_def Let_def by simp
qed

lemma manifest_is_not_package:
  "pluginInfoPath c dir \<noteq> path_resolve dir [''./package.json'']"
proof
  assume eq: "pluginInfoPath c dir = path_resolve dir [''./package.json'']"
  obtain d where d: "pluginInfoPath c dir = d @ ''/plugin.info''"
    using pluginInfoPath_suffix by blast
  obtain d' where d': "path_resolve dir [''./package.json''] = d' @ ''/package.json''"
    using package_path_suffix by blast
  have "last (pluginInfoPath c dir) = CHR ''o''" using d by simp
  moreover have "last (path_resolve dir [''./package.json'']) = CHR ''n''" using d' by simp
  ultimately show False using eq by simp
qed

subsection \<open>What the tasks and the streams leave behind\<close>

lemma map_of_assign: "map_of (assign k x ps) = (map_of ps)(k \<mapsto> x)"
  by (induction ps) (auto simp: fun_eq_iff)

lemma filter_assign:
  "(\<And>y. \<not> P (k, y)) \<Longrightarrow> filter P (assign k x ps) = filter P ps"
  by (induction ps) auto

lemma preprocessing_Inr:
  assumes "preprocessing c e w0 = (Inr pluginInfo, w)"
  shows "(\<exists>text. files w0 (pluginInfoPath c (cwd w0)) = Some text
            \<and> JSON_parse e text = Some (JObj pluginInfo))
    \<and> map_of pluginInfo ''title'' = Some (JStr (pluginTiddler c))
    \<and> w = w0\<lparr>log := log w0 @ [ReadFile (pluginInfoPath c (cwd w0))]\<rparr>"
  using assms
  by (auto simp: preprocessing_def Let_def split: option.splits json.splits if_splits)

lemma bump_build_shape:
  "(bump_build i v = [] \<longleftrightarrow> \<not> i) \<and> (i \<longrightarrow> (\<exists>r. bump_build i v = CHR ''+'' # r))"
  by (simp add: bump_build_def)

lemma bump_version_None:
  assumes "bump_version c e (pluginInfo, w) = (None, pluginInfo', w')"
  shows "\<exists>v. new_SemVer (map_of pluginInfo ''version'') = Inr v
    \<and> manifest_write e = Completes
    \<and> pluginInfo' =
        assign ''released'' (JStr (now e))
          (assign ''version''
             (JStr (bump_base v (bump_mode (argv_mode e)) @ bump_build (isIncrBuild c) v)) pluginInfo)
    \<and> cwd w' = cwd w \<and> dirs w' = dirs w
    \<and> files w' = (files w)(pluginInfoPath c (cwd w) \<mapsto> JSON_stringify e (JObj pluginInfo'))
    \<and> streams w' = streams w @ [(''./package.json'', bump_base v (bump_mode (argv_mode e)))]
    \<and> log w' = log w @ [TaskStart ''bump version'', WriteFile (pluginInfoPath c (cwd w))]"
proof (cases "new_SemVer (map_of pluginInfo ''version'')")
  case (Inl err)
  then show ?thesis using assms by (simp add: bump_version_def Let_def)
next
  case (Inr v)
  show ?thesis
  proof (cases "manifest_write e")
    case Completes
    then show ?thesis
      using assms Inr
      by (auto simp: bump_version_def Let_def writeFileSync_def)
  next
    case FailsAtOpen
    then show ?thesis using assms Inr by (simp add: bump_version_def Let_def writeFileSync_def)
  next
    case (FailsAfter k)
    then show ?thesis using assms Inr by (simp add: bump_version_def Let_def writeFileSync_def)
  qed
qed

lemma run_stream_frame:
  "cwd (snd (run_stream e s w)) = cwd w"
  "dirs (snd (run_stream e s w)) = dirs w"
  "q \<noteq> path_resolve (cwd w) [fst s] \<Longrightarrow> files (snd (run_stream e s w)) q = files w q"
  by (simp_all add: run_stream_def writeFileSync_def
        split: option.splits sum.splits write_outcome.splits)

lemma run_stream_keeps:
  "files w q \<noteq> None \<Longrightarrow> files (snd (run_stream e s w)) q \<noteq> None"
  "x \<in> set (log w) \<Longrightarrow> x \<in> set (log (snd (run_stream e s w)))"
  by (simp_all add: run_stream_def writeFileSync_def
        split: option.splits sum.splits write_outcome.splits)

lemma run_streams_keeps_files:
  "files w q \<noteq> None \<Longrightarrow> files (snd (run_streams e ss w)) q \<noteq> None"
proof (induction ss arbitrary: w)
  case Nil
  then show ?case by simp
next
  case (Cons s ss)
  have step: "files (snd (run_stream e s w)) q \<noteq> None"
    by (rule run_stream_keeps(1) [OF Cons.prems])
  show ?case
    using step Cons.IH [OF step] by (cases "fst (run_stream e s w)") simp_all
qed

lemma run_streams_keeps_log:
  "x \<in> set (log w) \<Longrightarrow> x \<in> set (log (snd (run_streams e ss w)))"
proof (induction ss arbitrary: w)
  case Nil
  then show ?case by simp
next
  case (Cons s ss)
  have step: "x \<in> set (log (snd (run_stream e s w)))"
    by (rule run_stream_keeps(2) [OF Cons.prems])
  show ?case
    using step Cons.IH [OF step] by (cases "fst (run_stream e s w)") simp_all
qed

lemma run_pending_keeps:
  "files w q \<noteq> None \<Longrightarrow> files (snd (run_pending e w)) q \<noteq> None"
  "x \<in> set (log w) \<Longrightarrow> x \<in> set (log (snd (run_pending e w)))"
  by (simp_all add: run_pending_def run_streams_keeps_files run_streams_keeps_log)

lemma run_pending_single:
  "streams w = [s] \<Longrightarrow> run_pending e w = run_stream e s (w\<lparr>streams := []\<rparr>)"
  by (cases "run_stream e s (w\<lparr>streams := []\<rparr>)")
     (simp add: run_pending_def split: option.splits)

lemma run_pending_package:
  assumes "streams w = [(''./package.json'', ver)]"
  shows "q \<noteq> path_resolve (cwd w) [''./package.json'']
           \<Longrightarrow> files (snd (run_pending e w)) q = files w q"
  using run_stream_frame(3) [of q "w\<lparr>streams := []\<rparr>" "(''./package.json'', ver)" e]
  by (simp add: run_pending_single [OF assms])

text \<open>The example run, step by step.\<close>

lemmas run_defs =
  gulp_def preprocessing_def run_task_def bump_version_def bundle_the_plugin_def
  writeFileSync_def run_stream_def new_SemVer_def exists_def mkdirSync_def outName_def
  property_text_def mismatch_def example_world_def example_env_def example_manifest_def
  script_config_def example_loaded_def example_parse_def example_stringify_def
  example_bump_def example_bumped_def example_plugin_def

lemmas text_defs =
  example_manifest_text_def example_package_text_def example_bumped_text_def
  example_bumped_package_text_def example_artifact_text_def

lemma example_preprocessing:
  "preprocessing script_config example_env example_world = (Inr example_manifest, example_loaded)"
  by (simp add: run_defs path_defs)

lemma example_bump:
  "bump_version script_config example_env (example_manifest, example_loaded)
   = (None, example_bumped, example_bumped_world)"
  by (simp add: run_defs path_defs version_defs example_bumped_world_def)

lemma example_pending:
  "run_pending example_env example_bumped_world = (None, example_finished_world)"
  by (simp add: run_pending_def run_defs path_defs example_bumped_world_def
        example_finished_world_def)

lemma example_gulp_bump:
  "gulp script_config example_env [Bump_version] example_world = (None, example_finished_world)"
  by (simp add: gulp_def example_preprocessing run_task_def example_bump example_pending)

subsection \<open>The two version fields\<close>

text \<open>
  Claim C3, as amended. After a bump that ends without an exception, with a
  \<^verbatim>\<open>package.json\<close> in the working directory whose stream ends without an error:
  \<^verbatim>\<open>gulp-bump\<close> was given \<^verbatim>\<open>major.minor.patch\<close> with the label of the mode, without the build
  suffix, and what it made of the old text is the new text of \<^verbatim>\<open>package.json\<close>; the version
  in the manifest written to \<^verbatim>\<open>plugin.info\<close> is that same version followed by the build
  suffix. The two versions are equal exactly when the flag \<open>isIncrBuild\<close> is off; with the
  flag on the manifest has a suffix that starts with \<^verbatim>\<open>+\<close> in addition.
\<close>

theorem bump_version_package_version:
  assumes "bump_version c e (pluginInfo, w) = (None, pluginInfo', w1)"
    and "streams w = []"
    and "files w (path_resolve (cwd w) [''./package.json'']) = Some text"
    and "run_pending e w1 = (None, w')"
  shows "\<exists>v b text'.
      new_SemVer (map_of pluginInfo ''version'') = Inr v
    \<and> bump e ''version'' (bump_base v (bump_mode (argv_mode e))) text = Inr text'
    \<and> files w' (path_resolve (cwd w) [''./package.json'']) = Some text'
    \<and> files w' (pluginInfoPath c (cwd w)) = Some (JSON_stringify e (JObj pluginInfo'))
    \<and> map_of pluginInfo' ''version''
        = Some (JStr (bump_base v (bump_mode (argv_mode e)) @ b))
    \<and> (b = [] \<longleftrightarrow> \<not> isIncrBuild c)
    \<and> (isIncrBuild c \<longrightarrow> hd b = CHR ''+'')"
proof -
  let ?m = "pluginInfoPath c (cwd w)"
  let ?p = "path_resolve (cwd w) [''./package.json'']"
  from bump_version_None [OF assms(1)] obtain v where
    v: "new_SemVer (map_of pluginInfo ''version'') = Inr v"
    and info': "pluginInfo' =
        assign ''released'' (JStr (now e))
          (assign ''version''
             (JStr (bump_base v (bump_mode (argv_mode e)) @ bump_build (isIncrBuild c) v)) pluginInfo)"
    and cwd1: "cwd w1 = cwd w"
    and files1: "files w1 = (files w)(?m \<mapsto> JSON_stringify e (JObj pluginInfo'))"
    and streams1: "streams w1 = streams w @ [(''./package.json'', bump_base v (bump_mode (argv_mode e)))]"
    by blast
  let ?V = "bump_base v (bump_mode (argv_mode e))"
  have ne: "?m \<noteq> ?p" by (rule manifest_is_not_package)
  have single: "streams w1 = [(''./package.json'', ?V)]"
    using streams1 assms(2) by simp
  have run: "run_stream e (''./package.json'', ?V) (w1\<lparr>streams := []\<rparr>) = (None, w')"
    using run_pending_single [OF single, of e] assms(4) by simp
  have present: "files w1 ?p = Some text"
    using files1 assms(3) ne by simp
  obtain text' where
    bumped: "bump e ''version'' ?V text = Inr text'"
    and files': "files w' = (files w1)(?p \<mapsto> text')"
    using run present cwd1
    by (auto simp: run_stream_def writeFileSync_def
             split: sum.splits write_outcome.splits)
  have a: "files w' ?p = Some text'" using files' by simp
  have b: "files w' ?m = Some (JSON_stringify e (JObj pluginInfo'))"
    using files' files1 ne by simp
  have c: "map_of pluginInfo' ''version'' = Some (JStr (?V @ bump_build (isIncrBuild c) v))"
    by (simp add: info' map_of_assign)
  have d: "(bump_build (isIncrBuild c) v = [] \<longleftrightarrow> \<not> isIncrBuild c)
           \<and> (isIncrBuild c \<longrightarrow> hd (bump_build (isIncrBuild c) v) = CHR ''+'')"
    using bump_build_shape [of "isIncrBuild c" v] by auto
  show ?thesis
    using v bumped a b c d by blast
qed

theorem bump_version_package_version_witness:
  "bump_version script_config example_env (example_manifest, example_loaded)
     = (None, example_bumped, example_bumped_world)
   \<and> streams example_loaded = []
   \<and> files example_loaded (path_resolve (cwd example_loaded) [''./package.json''])
       = Some example_package_text
   \<and> run_pending example_env example_bumped_world = (None, example_finished_world)
   \<and> (\<exists>b. map_of example_bumped ''version'' = Some (JStr (''1.2.5-develop'' @ b)) \<and> b \<noteq> [])
   \<and> files example_finished_world (path_resolve (cwd example_loaded) [''./package.json''])
       = Some example_bumped_package_text"
proof -
  have s: "streams example_loaded = []"
    by (simp add: example_loaded_def example_world_def)
  have p: "files example_loaded (path_resolve (cwd example_loaded) [''./package.json''])
       = Some example_package_text"
    by (simp add: example_loaded_def example_world_def path_defs)
  from bump_version_package_version [OF example_bump s p example_pending]
  obtain v b text' where
    v: "new_SemVer (map_of example_manifest ''version'') = Inr v"
    and bumped: "bump example_env ''version'' (bump_base v (bump_mode (argv_mode example_env)))
                   example_package_text = Inr text'"
    and pkg: "files example_finished_world (path_resolve (cwd example_loaded) [''./package.json''])
                = Some text'"
    and ver: "map_of example_bumped ''version''
                = Some (JStr (bump_base v (bump_mode (argv_mode example_env)) @ b))"
    and b: "b = [] \<longleftrightarrow> \<not> isIncrBuild script_config"
    by blast
  have "v = \<lparr>major = 1, minor = 2, patch = 5, prerelease = [], build = [''3'']\<rparr>"
    using v by (simp add: new_SemVer_def example_manifest_def version_defs)
  then have base: "bump_base v (bump_mode (argv_mode example_env)) = ''1.2.5-develop''"
    by (simp add: example_env_def version_defs)
  have "text' = example_bumped_package_text"
    using bumped unfolding base by (simp add: example_env_def example_bump_def)
  then have f: "files example_finished_world (path_resolve (cwd example_loaded) [''./package.json''])
       = Some example_bumped_package_text"
    using pkg by simp
  have "b \<noteq> []" using b by (simp add: script_config_def)
  then have g: "\<exists>b. map_of example_bumped ''version'' = Some (JStr (''1.2.5-develop'' @ b)) \<and> b \<noteq> []"
    using ver base by auto
  show ?thesis
    by (intro conjI example_bump s p example_pending g f)
qed

lemma example_versions:
  "version_in example_env example_finished_world ''/repo/package.json''
     = Some (JStr ''1.2.5-develop'')"
  "version_in example_env example_finished_world
     ''/repo/src/plugins/danielo515/pouchdb/plugin.info'' = Some (JStr ''1.2.5-develop+4'')"
  by (simp_all add: version_in_def example_finished_world_def example_env_def example_parse_def
        example_bumped_def text_defs)

text \<open>
  Claim C3 as stated fails: in the example run the bump leaves \<^verbatim>\<open>1.2.5-develop\<close> in
  \<^verbatim>\<open>package.json\<close> and \<^verbatim>\<open>1.2.5-develop+4\<close> in \<^verbatim>\<open>plugin.info\<close>.
\<close>

theorem package_version_counterexample:
  "fst (gulp script_config example_env [Bump_version] example_world) = None
   \<and> version_in example_env (snd (gulp script_config example_env [Bump_version] example_world))
        ''/repo/package.json'' = Some (JStr ''1.2.5-develop'')
   \<and> version_in example_env (snd (gulp script_config example_env [Bump_version] example_world))
        ''/repo/src/plugins/danielo515/pouchdb/plugin.info'' = Some (JStr ''1.2.5-develop+4'')
   \<and> version_in example_env (snd (gulp script_config example_env [Bump_version] example_world))
        ''/repo/package.json''
      \<noteq> version_in example_env (snd (gulp script_config example_env [Bump_version] example_world))
        ''/repo/src/plugins/danielo515/pouchdb/plugin.info''"
  by (simp add: example_gulp_bump example_versions)

subsection \<open>The fields of the manifest\<close>

text \<open>
  Claim C9, as amended. A bump that ends without an exception replaces the text of
  \<^verbatim>\<open>plugin.info\<close> by the text that \<^verbatim>\<open>JSON.stringify\<close> prints for the object that
  \<^verbatim>\<open>JSON.parse\<close> read from it, with only \<^verbatim>\<open>version\<close> and \<^verbatim>\<open>released\<close> assigned: every other
  property keeps the value that \<^verbatim>\<open>JSON.parse\<close> gave it and its place among the properties,
  \<^verbatim>\<open>released\<close> holds the time of the bump, and the stream over \<^verbatim>\<open>package.json\<close> leaves the
  file as the bump wrote it. The text of the other fields is printed anew, not kept.
\<close>

theorem bump_version_frame:
  assumes "preprocessing c e w0 = (Inr pluginInfo, w)"
    and "streams w0 = []"
    and "bump_version c e (pluginInfo, w) = (None, pluginInfo', w')"
  shows "(\<exists>text. files w0 (pluginInfoPath c (cwd w0)) = Some text
            \<and> JSON_parse e text = Some (JObj pluginInfo))
    \<and> files w' (pluginInfoPath c (cwd w0)) = Some (JSON_stringify e (JObj pluginInfo'))
    \<and> files (snd (run_pending e w')) (pluginInfoPath c (cwd w0))
        = Some (JSON_stringify e (JObj pluginInfo'))
    \<and> map_of pluginInfo' ''released'' = Some (JStr (now e))
    \<and> (\<forall>k. k \<noteq> ''version'' \<and> k \<noteq> ''released'' \<longrightarrow> map_of pluginInfo' k = map_of pluginInfo k)
    \<and> filter (\<lambda>p. fst p \<noteq> ''version'' \<and> fst p \<noteq> ''released'') pluginInfo'
        = filter (\<lambda>p. fst p \<noteq> ''version'' \<and> fst p \<noteq> ''released'') pluginInfo"
proof -
  let ?p = "pluginInfoPath c (cwd w0)"
  from preprocessing_Inr [OF assms(1)]
  have before: "\<exists>text. files w0 ?p = Some text \<and> JSON_parse e text = Some (JObj pluginInfo)"
    and w: "w = w0\<lparr>log := log w0 @ [ReadFile ?p]\<rparr>"
    by simp_all
  have cwd: "cwd w = cwd w0" and str: "streams w = []" using w assms(2) by simp_all
  from bump_version_None [OF assms(3)] obtain v where
    info': "pluginInfo' =
        assign ''released'' (JStr (now e))
          (assign ''version''
             (JStr (bump_base v (bump_mode (argv_mode e)) @ bump_build (isIncrBuild c) v)) pluginInfo)"
    and cwd': "cwd w' = cwd w"
    and files': "files w' = (files w)(pluginInfoPath c (cwd w) \<mapsto> JSON_stringify e (JObj pluginInfo'))"
    and streams': "streams w' = streams w @ [(''./package.json'', bump_base v (bump_mode (argv_mode e)))]"
    by blast
  have after: "files w' ?p = Some (JSON_stringify e (JObj pluginInfo'))"
    using files' cwd by simp
  have single: "streams w' = [(''./package.json'', bump_base v (bump_mode (argv_mode e)))]"
    using streams' str by simp
  have ne: "?p \<noteq> path_resolve (cwd w') [''./package.json'']"
    using manifest_is_not_package [of c "cwd w0"] cwd cwd' by simp
  have later: "files (snd (run_pending e w')) ?p = Some (JSON_stringify e (JObj pluginInfo'))"
    using run_pending_package [OF single ne, of e] after by simp
  have released: "map_of pluginInfo' ''released'' = Some (JStr (now e))"
    by (simp add: info' map_of_assign)
  have others: "\<forall>k. k \<noteq> ''version'' \<and> k \<noteq> ''released'' \<longrightarrow> map_of pluginInfo' k = map_of pluginInfo k"
    by (simp add: info' map_of_assign)
  have order: "filter (\<lambda>p. fst p \<noteq> ''version'' \<and> fst p \<noteq> ''released'') pluginInfo'
        = filter (\<lambda>p. fst p \<noteq> ''version'' \<and> fst p \<noteq> ''released'') pluginInfo"
    by (simp add: info' filter_assign)
  show ?thesis
    by (intro conjI before after later released others order)
qed

theorem bump_version_frame_witness:
  "preprocessing script_config example_env example_world = (Inr example_manifest, example_loaded)
   \<and> streams example_world = []
   \<and> bump_version script_config example_env (example_manifest, example_loaded)
       = (None, example_bumped, example_bumped_world)
   \<and> files example_bumped_world (pluginInfoPath script_config (cwd example_world))
       = Some example_bumped_text
   \<and> map_of example_bumped ''released'' = Some (JStr ''Mon, 02 Nov 2026 09:00:00 GMT'')
   \<and> map_of example_bumped ''priority'' = Some (JNum ''1.5'')"
proof -
  have s: "streams example_world = []" by (simp add: example_world_def)
  note t = bump_version_frame [OF example_preprocessing s example_bump]
  have "files example_bumped_world (pluginInfoPath script_config (cwd example_world))
          = Some (JSON_stringify example_env (JObj example_bumped))"
    by (rule t [THEN conjunct2, THEN conjunct1])
  moreover have "JSON_stringify example_env (JObj example_bumped) = example_bumped_text"
    by (simp add: example_env_def example_stringify_def)
  ultimately have a: "files example_bumped_world (pluginInfoPath script_config (cwd example_world))
          = Some example_bumped_text"
    by simp
  have "map_of example_bumped ''released'' = Some (JStr (now example_env))"
    by (rule t [THEN conjunct2, THEN conjunct2, THEN conjunct2, THEN conjunct1])
  then have b: "map_of example_bumped ''released'' = Some (JStr ''Mon, 02 Nov 2026 09:00:00 GMT'')"
    by (simp add: example_env_def)
  have "map_of example_bumped ''priority'' = map_of example_manifest ''priority''"
    using t [THEN conjunct2, THEN conjunct2, THEN conjunct2, THEN conjunct2, THEN conjunct1,
             THEN spec, of "''priority''"]
    by simp
  then have c: "map_of example_bumped ''priority'' = Some (JNum ''1.5'')"
    by (simp add: example_manifest_def)
  show ?thesis
    by (intro conjI example_preprocessing s example_bump a b c)
qed

text \<open>
  Claim C9 as stated fails: the manifest of the example has the field
  \<^verbatim>\<open>"priority": 1.50\<close>; after the bump the file has \<^verbatim>\<open>"priority": 1.5\<close> in its place, so the
  text of that field has not been kept.
\<close>

theorem manifest_fields_counterexample:
  \<open>files example_world ''/repo/src/plugins/danielo515/pouchdb/plugin.info''
     = Some example_manifest_text
   \<and> occurs ''"priority": 1.50'' example_manifest_text
   \<and> fst (gulp script_config example_env [Bump_version] example_world) = None
   \<and> files (snd (gulp script_config example_env [Bump_version] example_world))
        ''/repo/src/plugins/danielo515/pouchdb/plugin.info''
     = Some example_bumped_text
   \<and> \<not> occurs ''"priority": 1.50'' example_bumped_text\<close>
proof -
  have a: "files example_world ''/repo/src/plugins/danielo515/pouchdb/plugin.info''
     = Some example_manifest_text"
    by (simp add: example_world_def)
  have b: \<open>occurs ''"priority": 1.50'' example_manifest_text\<close>
    by (simp add: example_manifest_text_def)
  have c: "fst (gulp script_config example_env [Bump_version] example_world) = None"
    by (simp add: example_gulp_bump)
  have d: "files (snd (gulp script_config example_env [Bump_version] example_world))
        ''/repo/src/plugins/danielo515/pouchdb/plugin.info''
     = Some example_bumped_text"
    by (simp add: example_gulp_bump example_finished_world_def)
  have e: \<open>\<not> occurs ''"priority": 1.50'' example_bumped_text\<close>
    by (simp add: example_bumped_text_def)
  show ?thesis
    by (intro conjI a b c d e)
qed

subsection \<open>Saving the manifest\<close>

text \<open>
  Claim C4, as amended. Saving the manifest is one direct overwrite of \<^verbatim>\<open>plugin.info\<close>
  with the whole new manifest, with no temporary file and no rename. A write that
  completes leaves the new text in the file; a write that cannot open the file
  raises and leaves every file as it was; a write that fails after \<open>k\<close> bytes raises and
  leaves the first \<open>k\<close> bytes of the new text in \<^verbatim>\<open>plugin.info\<close>, so that the previous
  manifest is gone. The task touches no other file, and the stream that it sets up
  touches \<^verbatim>\<open>package.json\<close> only.
\<close>

theorem manifest_write_direct:
  assumes "new_SemVer (map_of pluginInfo ''version'') = Inr v"
    and "bump_version c e (pluginInfo, w) = (r, pluginInfo', w')"
  shows "(manifest_write e = Completes \<longrightarrow>
            files w' = (files w)(pluginInfoPath c (cwd w) \<mapsto> JSON_stringify e (JObj pluginInfo')))
    \<and> (manifest_write e = FailsAtOpen \<longrightarrow>
            r = Some (SystemError ''open'') \<and> files w' = files w)
    \<and> (\<forall>k. manifest_write e = FailsAfter k \<longrightarrow>
            r = Some (SystemError ''write'')
            \<and> files w' = (files w)(pluginInfoPath c (cwd w) \<mapsto>
                             take k (JSON_stringify e (JObj pluginInfo'))))
    \<and> (\<forall>q. q \<noteq> pluginInfoPath c (cwd w) \<longrightarrow> files w' q = files w q)
    \<and> (streams w = [] \<longrightarrow>
          (\<forall>q. q \<noteq> path_resolve (cwd w) [''./package.json'']
                \<longrightarrow> files (snd (run_pending e w')) q = files w' q))"
proof (cases "manifest_write e")
  case Completes
  have r: "r = None" using assms Completes
    by (auto simp: bump_version_def Let_def writeFileSync_def)
  from bump_version_None [OF assms(2) [unfolded r]] obtain v' where
    cwd': "cwd w' = cwd w"
    and files': "files w' = (files w)(pluginInfoPath c (cwd w) \<mapsto> JSON_stringify e (JObj pluginInfo'))"
    and streams': "streams w' = streams w @ [(''./package.json'', bump_base v' (bump_mode (argv_mode e)))]"
    by blast
  have later: "files (snd (run_pending e w')) q = files w' q"
    if "streams w = []" and "q \<noteq> path_resolve (cwd w) [''./package.json'']" for q
  proof -
    have single: "streams w' = [(''./package.json'', bump_base v' (bump_mode (argv_mode e)))]"
      using streams' that(1) by simp
    show ?thesis using run_pending_package [OF single, of q e] that(2) cwd' by simp
  qed
  show ?thesis using Completes files' later by simp
next
  case FailsAtOpen
  then show ?thesis
    using assms by (auto simp: bump_version_def Let_def writeFileSync_def run_pending_def)
next
  case (FailsAfter k)
  then show ?thesis
    using assms by (auto simp: bump_version_def Let_def writeFileSync_def run_pending_def)
qed

lemma example_version:
  "new_SemVer (map_of example_manifest ''version'')
   = Inr \<lparr>major = 1, minor = 2, patch = 5, prerelease = [], build = [''3'']\<rparr>"
  by (simp add: new_SemVer_def example_manifest_def version_defs)

lemma failing_bump:
  "bump_version script_config failing_env (example_manifest, example_loaded)
   = (Some (SystemError ''write''), example_bumped,
      example_loaded\<lparr>
        files := (files example_loaded)(''/repo/src/plugins/danielo515/pouchdb/plugin.info''
                   \<mapsto> take 10 example_bumped_text),
        log := [ReadFile ''/repo/src/plugins/danielo515/pouchdb/plugin.info'',
                TaskStart ''bump version'',
                WriteFile ''/repo/src/plugins/danielo515/pouchdb/plugin.info'']\<rparr>)"
  by (simp add: failing_env_def run_defs path_defs version_defs)

lemma failing_gulp:
  "gulp script_config failing_env [Bump_version] example_world
   = (Some (SystemError ''write''),
      example_loaded\<lparr>
        files := (files example_loaded)(''/repo/src/plugins/danielo515/pouchdb/plugin.info''
                   \<mapsto> take 10 example_bumped_text),
        log := [ReadFile ''/repo/src/plugins/danielo515/pouchdb/plugin.info'',
                TaskStart ''bump version'',
                WriteFile ''/repo/src/plugins/danielo515/pouchdb/plugin.info''],
        streams := []\<rparr>)"
proof -
  have pre: "preprocessing script_config failing_env example_world
             = (Inr example_manifest, example_loaded)"
    by (simp add: failing_env_def run_defs path_defs)
  have none: "streams example_loaded = []"
    by (simp add: example_loaded_def example_world_def)
  show ?thesis
    by (simp add: gulp_def pre run_task_def failing_bump run_pending_def none)
qed

lemma failing_gulp_bump:
  "fst (gulp script_config failing_env [Bump_version] example_world) = Some (SystemError ''write'')"
  \<open>files (snd (gulp script_config failing_env [Bump_version] example_world))
     ''/repo/src/plugins/danielo515/pouchdb/plugin.info'' = Some ''{\<newline>  "title''\<close>
  by (simp_all add: failing_gulp example_bumped_text_def)

theorem manifest_write_direct_witness:
  \<open>new_SemVer (map_of example_manifest ''version'')
     = Inr \<lparr>major = 1, minor = 2, patch = 5, prerelease = [], build = [''3'']\<rparr>
   \<and> manifest_write failing_env = FailsAfter 10
   \<and> fst (bump_version script_config failing_env (example_manifest, example_loaded))
       = Some (SystemError ''write'')
   \<and> files (snd (snd (bump_version script_config failing_env (example_manifest, example_loaded))))
       = (files example_loaded)(pluginInfoPath script_config (cwd example_loaded) \<mapsto>
            take 10 (JSON_stringify failing_env (JObj example_bumped)))
   \<and> take 10 (JSON_stringify failing_env (JObj example_bumped)) = ''{\<newline>  "title''\<close>
proof -
  let ?r = "bump_version script_config failing_env (example_manifest, example_loaded)"
  have a: "?r = (fst ?r, fst (snd ?r), snd (snd ?r))" by simp
  have b: "manifest_write failing_env = FailsAfter 10"
    by (simp add: failing_env_def)
  have i: "fst (snd ?r) = example_bumped" by (simp add: failing_bump)
  note t = manifest_write_direct [OF example_version a]
  have c: "fst ?r = Some (SystemError ''write'')
        \<and> files (snd (snd ?r)) = (files example_loaded)(pluginInfoPath script_config (cwd example_loaded) \<mapsto>
            take 10 (JSON_stringify failing_env (JObj (fst (snd ?r)))))"
    using t [THEN conjunct2, THEN conjunct2, THEN conjunct1, THEN spec, of 10] b by blast
  have d: \<open>take 10 (JSON_stringify failing_env (JObj example_bumped)) = ''{\<newline>  "title''\<close>
    by (simp add: failing_env_def example_env_def example_stringify_def example_bumped_text_def)
  show ?thesis
    using example_version b c d unfolding i by blast
qed

text \<open>
  Claim C4 as stated fails: in the example directory a manifest write that fails after
  ten bytes raises, and \<^verbatim>\<open>plugin.info\<close> no longer holds the manifest it held before.
\<close>

theorem manifest_write_counterexample:
  \<open>fst (gulp script_config failing_env [Bump_version] example_world) = Some (SystemError ''write'')
   \<and> files example_world ''/repo/src/plugins/danielo515/pouchdb/plugin.info''
       = Some example_manifest_text
   \<and> files (snd (gulp script_config failing_env [Bump_version] example_world))
        ''/repo/src/plugins/danielo515/pouchdb/plugin.info''
       = Some ''{\<newline>  "title''
   \<and> files (snd (gulp script_config failing_env [Bump_version] example_world))
        ''/repo/src/plugins/danielo515/pouchdb/plugin.info''
       \<noteq> files example_world ''/repo/src/plugins/danielo515/pouchdb/plugin.info''\<close>
proof -
  have before: "files example_world ''/repo/src/plugins/danielo515/pouchdb/plugin.info''
       = Some example_manifest_text"
    by (simp add: example_world_def)
  have differ: \<open>Some ''{\<newline>  "title'' \<noteq> Some example_manifest_text\<close>
    by (simp add: example_manifest_text_def)
  show ?thesis
    unfolding before failing_gulp_bump using differ by simp
qed

subsection \<open>The check of the title\<close>

text \<open>A manifest file that holds \<^verbatim>\<open>null\<close> ends the preprocessing with a \<^verbatim>\<open>TypeError\<close>.\<close>

lemma null_manifest:
  "files w (pluginInfoPath c (cwd w)) = Some text \<Longrightarrow> JSON_parse e text = Some JNull \<Longrightarrow>
   fst (preprocessing c e w) = Inl (TypeError ''Cannot read property title of null'')"
  by (simp add: preprocessing_def Let_def)

text \<open>
  Claim C5. For every configuration and every manifest, that is, every value other than
  \<^verbatim>\<open>null\<close> that the manifest file parses to: when the title of the manifest differs from
  \<^verbatim>\<open>$:/plugins/<author>/<pluginName>\<close>, the run raises the mismatch error with the world as
  it was after the manifest had been loaded: no task has started, no file and no
  directory has been written, created or changed, and the trace holds nothing but the
  read of the manifest that the check looks at. Conversely, when the title matches, the
  check raises no error and the tasks receive the loaded manifest.
\<close>

theorem title_mismatch_aborts:
  assumes "files w (pluginInfoPath c (cwd w)) = Some text"
    and "JSON_parse e text = Some x" and "x \<noteq> JNull"
  shows "(title_of x \<noteq> Some (JStr (pluginTiddler c)) \<longrightarrow>
           gulp c e ts w
             = (Some mismatch, w\<lparr>log := log w @ [ReadFile (pluginInfoPath c (cwd w))]\<rparr>)
           \<and> files (snd (gulp c e ts w)) = files w
           \<and> dirs (snd (gulp c e ts w)) = dirs w
           \<and> (\<forall>name. TaskStart name \<notin> set (log (snd (gulp c e ts w))) - set (log w))
           \<and> (\<forall>p. WriteFile p \<notin> set (log (snd (gulp c e ts w))) - set (log w))
           \<and> (\<forall>p. MkDir p \<notin> set (log (snd (gulp c e ts w))) - set (log w)))
    \<and> (title_of x = Some (JStr (pluginTiddler c)) \<longrightarrow>
           (\<exists>pluginInfo. x = JObj pluginInfo
              \<and> preprocessing c e w
                  = (Inr pluginInfo, w\<lparr>log := log w @ [ReadFile (pluginInfoPath c (cwd w))]\<rparr>)))"
  using assms
  by (cases x) (auto simp: gulp_def preprocessing_def title_of_def Let_def)

lemma foreign_text:
  "files foreign_world (pluginInfoPath script_config (cwd foreign_world))
   = Some foreign_manifest_text"
  by (simp add: foreign_world_def path_defs script_config_def)

lemma foreign_parse:
  "JSON_parse example_env foreign_manifest_text = Some (JObj foreign_manifest)"
  by (simp add: example_env_def example_parse_def text_defs foreign_manifest_text_def)

theorem title_mismatch_aborts_witness:
  "files foreign_world (pluginInfoPath script_config (cwd foreign_world))
     = Some foreign_manifest_text
   \<and> JSON_parse example_env foreign_manifest_text = Some (JObj foreign_manifest)
   \<and> JObj foreign_manifest \<noteq> JNull
   \<and> gulp script_config example_env [Default, Bundle_the_plugin] foreign_world
       = (Some mismatch,
          foreign_world\<lparr>log := log foreign_world
             @ [ReadFile (pluginInfoPath script_config (cwd foreign_world))]\<rparr>)
   \<and> files example_world (pluginInfoPath script_config (cwd example_world))
       = Some example_manifest_text
   \<and> JSON_parse example_env example_manifest_text = Some (JObj example_manifest)
   \<and> JObj example_manifest \<noteq> JNull
   \<and> fst (preprocessing script_config example_env example_world) = Inr example_manifest"
proof -
  have a: "JObj foreign_manifest \<noteq> JNull" by simp
  have b: "title_of (JObj foreign_manifest) \<noteq> Some (JStr (pluginTiddler script_config))"
    by (simp add: title_of_def foreign_manifest_def pluginTiddler_def pluginNamespace_def
          script_config_def)
  have differ: "gulp script_config example_env [Default, Bundle_the_plugin] foreign_world
       = (Some mismatch,
          foreign_world\<lparr>log := log foreign_world
             @ [ReadFile (pluginInfoPath script_config (cwd foreign_world))]\<rparr>)"
    using title_mismatch_aborts [OF foreign_text foreign_parse a,
            where ts = "[Default, Bundle_the_plugin]"] b
    by blast
  have c: "files example_world (pluginInfoPath script_config (cwd example_world))
       = Some example_manifest_text"
    by (simp add: example_world_def path_defs script_config_def)
  have p: "JSON_parse example_env example_manifest_text = Some (JObj example_manifest)"
    by (simp add: example_env_def example_parse_def)
  have d: "JObj example_manifest \<noteq> JNull" by simp
  have e: "title_of (JObj example_manifest) = Some (JStr (pluginTiddler script_config))"
    by (simp add: title_of_def example_manifest_def pluginTiddler_def pluginNamespace_def
          script_config_def)
  have match: "fst (preprocessing script_config example_env example_world) = Inr example_manifest"
    using title_mismatch_aborts [OF c p d, where ts = "[]"] e by auto
  show ?thesis
    by (intro conjI foreign_text foreign_parse a differ c p d match)
qed

subsection \<open>The bundle\<close>

lemma bundle_the_plugin_result:
  assumes "bundle_the_plugin c e (pluginInfo, w) = (r, pluginInfo', w')"
  shows "pluginInfo' = pluginInfo \<and> cwd w' = cwd w
    \<and> (case loadPluginFolder e (path_resolve (cwd w) [outPath_dist, pluginNamespace c]) of
          Inl err \<Rightarrow> r = Some err \<and> files w' = files w
        | Inr plugin \<Rightarrow>
            (r = None
               \<and> files w' = (files w)(path_resolve (cwd w) [outPath_bundle, outName c pluginInfo]
                                \<mapsto> JSON_stringify e (JArr [plugin]))
               \<and> last (log w') = WriteFile (path_resolve (cwd w) [outPath_bundle, outName c pluginInfo]))
            \<or> (r \<noteq> None \<and> files w' = files w)
            \<or> (r \<noteq> None
               \<and> (\<exists>k. files w' = (files w)(path_resolve (cwd w) [outPath_bundle, outName c pluginInfo]
                                \<mapsto> take k (JSON_stringify e (JArr [plugin]))))))"
  using assms
  by (auto simp: bundle_the_plugin_def Let_def writeFileSync_def mkdirSync_def
           split: sum.splits write_outcome.splits if_splits)

lemma bundle_the_plugin_None:
  assumes "bundle_the_plugin c e (pluginInfo, w) = (None, pluginInfo', w')"
  shows "pluginInfo' = pluginInfo
    \<and> last (log w') = WriteFile (path_resolve (cwd w) [outPath_bundle, outName c pluginInfo])
    \<and> WriteFile (path_resolve (cwd w) [outPath_bundle, outName c pluginInfo]) \<in> set (log w')
    \<and> files w' (path_resolve (cwd w) [outPath_bundle, outName c pluginInfo]) \<noteq> None"
  using assms
  by (auto simp: bundle_the_plugin_def Let_def writeFileSync_def mkdirSync_def
           split: sum.splits write_outcome.splits if_splits)

text \<open>
  Claim C6. Whatever an invocation of the bundle task changes in the file system is the
  text of a one-element array that holds the record returned by the plugin loader,
  complete or cut short by a failing write; and an invocation that ends without an
  exception leaves at the artifact path the text of an array of length one holding that
  record.
\<close>

theorem bundle_writes_array:
  assumes "bundle_the_plugin c e (pluginInfo, w) = (r, pluginInfo', w')"
  shows "(\<forall>q. files w' q \<noteq> files w q \<longrightarrow>
            (\<exists>plugin. loadPluginFolder e (path_resolve (cwd w) [outPath_dist, pluginNamespace c]) = Inr plugin
               \<and> (files w' q = Some (JSON_stringify e (JArr [plugin]))
                    \<or> (\<exists>k. files w' q = Some (take k (JSON_stringify e (JArr [plugin])))))))
    \<and> (r = None \<longrightarrow>
            (\<exists>d. files w' (path_resolve (cwd w) [outPath_bundle, outName c pluginInfo])
                    = Some (JSON_stringify e d)
               \<and> root_array_length d = Some 1)
            \<and> (\<exists>plugin. loadPluginFolder e (path_resolve (cwd w) [outPath_dist, pluginNamespace c]) = Inr plugin
               \<and> files w' (path_resolve (cwd w) [outPath_bundle, outName c pluginInfo])
                    = Some (JSON_stringify e (JArr [plugin]))))"
proof (cases "loadPluginFolder e (path_resolve (cwd w) [outPath_dist, pluginNamespace c])")
  case (Inl err)
  then show ?thesis using bundle_the_plugin_result [OF assms] by simp
next
  case (Inr plugin)
  from bundle_the_plugin_result [OF assms] Inr
  consider
    (written) "r = None"
      "files w' = (files w)(path_resolve (cwd w) [outPath_bundle, outName c pluginInfo]
                                \<mapsto> JSON_stringify e (JArr [plugin]))"
  | (untouched) "r \<noteq> None" "files w' = files w"
  | (torn) k where "r \<noteq> None"
      "files w' = (files w)(path_resolve (cwd w) [outPath_bundle, outName c pluginInfo]
                                \<mapsto> take k (JSON_stringify e (JArr [plugin])))"
    by auto
  then show ?thesis
  proof cases
    case written
    have "root_array_length (JArr [plugin]) = Some 1" by (simp add: root_array_length_def)
    then show ?thesis using written Inr by (auto split: if_splits)
  next
    case untouched
    then show ?thesis by auto
  next
    case torn
    then show ?thesis using Inr by (auto split: if_splits)
  qed
qed

lemma example_bundle_alone:
  "fst (bundle_the_plugin script_config example_env (example_manifest, example_loaded)) = None"
  "files (snd (snd (bundle_the_plugin script_config example_env (example_manifest, example_loaded))))
     ''/repo/bundle/pouchdb_1.2.5+3.json'' = Some example_artifact_text"
  "last (log (snd (snd (bundle_the_plugin script_config example_env
                          (example_manifest, example_loaded)))))
     = WriteFile ''/repo/bundle/pouchdb_1.2.5+3.json''"
  by (simp_all add: run_defs path_defs)

lemma example_artifact_path:
  "path_resolve (cwd example_loaded) [outPath_bundle, outName script_config example_manifest]
   = ''/repo/bundle/pouchdb_1.2.5+3.json''"
  by (simp add: run_defs path_defs)

theorem bundle_writes_array_witness:
  "fst (bundle_the_plugin script_config example_env (example_manifest, example_loaded)) = None
   \<and> files (snd (snd (bundle_the_plugin script_config example_env (example_manifest, example_loaded))))
        ''/repo/bundle/pouchdb_1.2.5+3.json''
       = Some (JSON_stringify example_env (JArr [example_plugin]))
   \<and> JSON_stringify example_env (JArr [example_plugin]) = example_artifact_text
   \<and> root_array_length (JArr [example_plugin]) = Some 1"
proof -
  let ?r = "bundle_the_plugin script_config example_env (example_manifest, example_loaded)"
  have a: "?r = (fst ?r, fst (snd ?r), snd (snd ?r))" by simp
  have ok: "fst ?r = None" by (rule example_bundle_alone(1))
  from bundle_writes_array [OF a, THEN conjunct2, THEN mp, OF ok, THEN conjunct2] obtain plugin where
    plugin: "loadPluginFolder example_env
               (path_resolve (cwd example_loaded) [outPath_dist, pluginNamespace script_config])
             = Inr plugin"
    and written: "files (snd (snd ?r))
                 (path_resolve (cwd example_loaded) [outPath_bundle, outName script_config example_manifest])
               = Some (JSON_stringify example_env (JArr [plugin]))"
    by blast
  have p: "plugin = example_plugin"
    using plugin by (simp add: example_env_def)
  have f: "files (snd (snd ?r)) ''/repo/bundle/pouchdb_1.2.5+3.json''
       = Some (JSON_stringify example_env (JArr [example_plugin]))"
    using written unfolding p example_artifact_path .
  have t: "JSON_stringify example_env (JArr [example_plugin]) = example_artifact_text"
    by (simp add: example_env_def example_stringify_def)
  have l: "root_array_length (JArr [example_plugin]) = Some 1"
    by (simp add: root_array_length_def)
  show ?thesis
    by (intro conjI ok f t l)
qed

text \<open>
  Claim C7. An invocation of the bundle task that ends without an exception writes the
  artifact to \<^verbatim>\<open><pluginName>_<version>.json\<close> in the bundle directory, where the version is
  the one that the manifest object holds at that moment. When the bump task ran before it
  in the same run, that is the version which the bump assigned and wrote to
  \<^verbatim>\<open>plugin.info\<close>, and the artifact is still there under that name when the stream over
  \<^verbatim>\<open>package.json\<close> has run.
\<close>

theorem artifact_name_has_bumped_version:
  "(bundle_the_plugin c e (pluginInfo, w) = (None, pluginInfo', w')
      \<and> map_of pluginInfo ''version'' = Some (JStr ver)
     \<longrightarrow> last (log w')
           = WriteFile (path_resolve (cwd w) [outPath_bundle, pluginName c @ ''_'' @ ver @ ''.json''])
         \<and> files w' (path_resolve (cwd w) [outPath_bundle, pluginName c @ ''_'' @ ver @ ''.json''])
           \<noteq> None)
   \<and> (run_tasks c e [Bump_version, Bundle_the_plugin] (pluginInfo, w) = (None, pluginInfo', w')
     \<longrightarrow> (\<exists>w1 new v b.
             bump_version c e (pluginInfo, w) = (None, pluginInfo', w1)
           \<and> files w1 (pluginInfoPath c (cwd w)) = Some (JSON_stringify e (JObj pluginInfo'))
           \<and> map_of pluginInfo' ''version'' = Some (JStr new)
           \<and> new_SemVer (map_of pluginInfo ''version'') = Inr v
           \<and> new = bump_base v (bump_mode (argv_mode e)) @ b
           \<and> (b = [] \<longleftrightarrow> \<not> isIncrBuild c)
           \<and> WriteFile (path_resolve (cwd w) [outPath_bundle, pluginName c @ ''_'' @ new @ ''.json''])
               \<in> set (log w')
           \<and> files w' (path_resolve (cwd w) [outPath_bundle, pluginName c @ ''_'' @ new @ ''.json''])
               \<noteq> None
           \<and> WriteFile (path_resolve (cwd w) [outPath_bundle, pluginName c @ ''_'' @ new @ ''.json''])
               \<in> set (log (snd (run_pending e w')))
           \<and> files (snd (run_pending e w'))
                (path_resolve (cwd w) [outPath_bundle, pluginName c @ ''_'' @ new @ ''.json''])
               \<noteq> None))"
proof -
  have single: "last (log w2)
           = WriteFile (path_resolve (cwd w1) [outPath_bundle, pluginName c @ ''_'' @ x @ ''.json''])
         \<and> WriteFile (path_resolve (cwd w1) [outPath_bundle, pluginName c @ ''_'' @ x @ ''.json''])
             \<in> set (log w2)
         \<and> files w2 (path_resolve (cwd w1) [outPath_bundle, pluginName c @ ''_'' @ x @ ''.json''])
           \<noteq> None \<and> info2 = info1"
    if "bundle_the_plugin c e (info1, w1) = (None, info2, w2)"
      and "map_of info1 ''version'' = Some (JStr x)" for info1 w1 info2 w2 x
  proof -
    have name: "outName c info1 = pluginName c @ ''_'' @ x @ ''.json''"
      using that(2) by (simp add: outName_def property_text_def)
    show ?thesis
      using bundle_the_plugin_None [OF that(1)] name by simp
  qed
  have seq: "\<exists>w1 new v b.
             bump_version c e (pluginInfo, w) = (None, pluginInfo', w1)
           \<and> files w1 (pluginInfoPath c (cwd w)) = Some (JSON_stringify e (JObj pluginInfo'))
           \<and> map_of pluginInfo' ''version'' = Some (JStr new)
           \<and> new_SemVer (map_of pluginInfo ''version'') = Inr v
           \<and> new = bump_base v (bump_mode (argv_mode e)) @ b
           \<and> (b = [] \<longleftrightarrow> \<not> isIncrBuild c)
           \<and> WriteFile (path_resolve (cwd w) [outPath_bundle, pluginName c @ ''_'' @ new @ ''.json''])
               \<in> set (log w')
           \<and> files w' (path_resolve (cwd w) [outPath_bundle, pluginName c @ ''_'' @ new @ ''.json''])
               \<noteq> None
           \<and> WriteFile (path_resolve (cwd w) [outPath_bundle, pluginName c @ ''_'' @ new @ ''.json''])
               \<in> set (log (snd (run_pending e w')))
           \<and> files (snd (run_pending e w'))
                (path_resolve (cwd w) [outPath_bundle, pluginName c @ ''_'' @ new @ ''.json''])
               \<noteq> None"
    if run: "run_tasks c e [Bump_version, Bundle_the_plugin] (pluginInfo, w) = (None, pluginInfo', w')"
  proof -
    obtain r1 info1 w1 where b: "bump_version c e (pluginInfo, w) = (r1, info1, w1)"
      by (cases "bump_version c e (pluginInfo, w)") auto
    have r1: "r1 = None"
      using run b by (cases r1) (simp_all add: run_task_def)
    have bnd: "bundle_the_plugin c e (info1, w1) = (None, pluginInfo', w')"
    proof -
      obtain r2 info2 w2 where u: "bundle_the_plugin c e (info1, w1) = (r2, info2, w2)"
        by (cases "bundle_the_plugin c e (info1, w1)") auto
      then show ?thesis
        using run b r1 by (cases r2) (simp_all add: run_task_def)
    qed
    from b r1 have b': "bump_version c e (pluginInfo, w) = (None, info1, w1)" by simp
    from bump_version_None [OF b'] obtain v where
      v: "new_SemVer (map_of pluginInfo ''version'') = Inr v"
      and info1: "info1 =
        assign ''released'' (JStr (now e))
          (assign ''version''
             (JStr (bump_base v (bump_mode (argv_mode e)) @ bump_build (isIncrBuild c) v)) pluginInfo)"
      and cwd: "cwd w1 = cwd w"
      and files1: "files w1 = (files w)(pluginInfoPath c (cwd w) \<mapsto> JSON_stringify e (JObj info1))"
      by blast
    let ?new = "bump_base v (bump_mode (argv_mode e)) @ bump_build (isIncrBuild c) v"
    have held: "map_of info1 ''version'' = Some (JStr ?new)"
      by (simp add: info1 map_of_assign)
    have same: "pluginInfo' = info1"
      using single [OF bnd held] by simp
    have written: "files w1 (pluginInfoPath c (cwd w)) = Some (JSON_stringify e (JObj info1))"
      using files1 by simp
    have shape: "bump_build (isIncrBuild c) v = [] \<longleftrightarrow> \<not> isIncrBuild c"
      using bump_build_shape [of "isIncrBuild c" v] by simp
    let ?a = "path_resolve (cwd w) [outPath_bundle, pluginName c @ ''_'' @ ?new @ ''.json'']"
    have ev: "WriteFile ?a \<in> set (log w')" and fl: "files w' ?a \<noteq> None"
      using single [OF bnd held] cwd by simp_all
    have ev': "WriteFile ?a \<in> set (log (snd (run_pending e w')))"
      by (rule run_pending_keeps(2) [OF ev])
    have fl': "files (snd (run_pending e w')) ?a \<noteq> None"
      by (rule run_pending_keeps(1) [OF fl])
    show ?thesis
      using b' v held written shape ev fl ev' fl' unfolding same by blast
  qed
  show ?thesis using single seq by blast
qed

lemma example_bundle_after_bump:
  "fst (bundle_the_plugin script_config example_env (example_bumped, example_bumped_world)) = None"
  "fst (snd (bundle_the_plugin script_config example_env (example_bumped, example_bumped_world)))
     = example_bumped"
  by (simp_all add: run_defs path_defs example_bumped_world_def)

lemma example_run_both:
  "run_tasks script_config example_env [Bump_version, Bundle_the_plugin]
     (example_manifest, example_loaded)
   = (None, example_bumped,
      snd (snd (bundle_the_plugin script_config example_env (example_bumped, example_bumped_world))))"
  by (simp add: run_task_def example_bump example_bundle_after_bump prod_eq_iff)

theorem artifact_name_has_bumped_version_witness:
  "run_tasks script_config example_env [Bump_version, Bundle_the_plugin]
     (example_manifest, example_loaded)
   = (None, example_bumped,
      snd (snd (bundle_the_plugin script_config example_env (example_bumped, example_bumped_world))))
   \<and> map_of example_bumped ''version'' = Some (JStr ''1.2.5-develop+4'')
   \<and> WriteFile ''/repo/bundle/pouchdb_1.2.5-develop+4.json''
        \<in> set (log (snd (snd (bundle_the_plugin script_config example_env
                                 (example_bumped, example_bumped_world)))))
   \<and> fst (bundle_the_plugin script_config example_env (example_manifest, example_loaded)) = None
   \<and> map_of example_manifest ''version'' = Some (JStr ''1.2.5+3'')
   \<and> last (log (snd (snd (bundle_the_plugin script_config example_env
                              (example_manifest, example_loaded)))))
       = WriteFile ''/repo/bundle/pouchdb_1.2.5+3.json''"
proof -
  let ?W = "snd (snd (bundle_the_plugin script_config example_env (example_bumped, example_bumped_world)))"
  let ?B = "bundle_the_plugin script_config example_env (example_manifest, example_loaded)"
  from artifact_name_has_bumped_version
         [where c = script_config and e = example_env and pluginInfo = example_manifest
            and w = example_loaded and pluginInfo' = example_bumped and w' = ?W,
          THEN conjunct2, THEN mp, OF example_run_both]
  obtain new where
    held: "map_of example_bumped ''version'' = Some (JStr new)"
    and ev: "WriteFile (path_resolve (cwd example_loaded)
                [outPath_bundle, pluginName script_config @ ''_'' @ new @ ''.json''])
             \<in> set (log ?W)"
    by blast
  have v: "map_of example_bumped ''version'' = Some (JStr ''1.2.5-develop+4'')"
    by (simp add: example_bumped_def)
  have "new = ''1.2.5-develop+4''" using held v by simp
  then have seq: "WriteFile ''/repo/bundle/pouchdb_1.2.5-develop+4.json'' \<in> set (log ?W)"
    using ev by (simp add: example_loaded_def example_world_def script_config_def path_defs)
  have okB: "fst ?B = None" by (rule example_bundle_alone(1))
  then have b: "?B = (None, fst (snd ?B), snd (snd ?B))"
    by (simp add: prod_eq_iff)
  have cur: "map_of example_manifest ''version'' = Some (JStr ''1.2.5+3'')"
    by (simp add: example_manifest_def)
  from artifact_name_has_bumped_version
         [where c = script_config and e = example_env and pluginInfo = example_manifest
            and w = example_loaded and pluginInfo' = "fst (snd ?B)" and w' = "snd (snd ?B)"
            and ver = "''1.2.5+3''",
          THEN conjunct1, THEN mp, OF conjI, OF b cur]
  have "last (log (snd (snd ?B)))
          = WriteFile (path_resolve (cwd example_loaded)
              [outPath_bundle, pluginName script_config @ ''_'' @ ''1.2.5+3'' @ ''.json''])"
    by (rule conjunct1)
  then have alone: "last (log (snd (snd ?B))) = WriteFile ''/repo/bundle/pouchdb_1.2.5+3.json''"
    by (simp add: example_loaded_def example_world_def script_config_def path_defs)
  show ?thesis
    by (intro conjI example_run_both v seq okB cur alone)
qed

end
